theory Spec2Isabelle
  imports Main "HOL-Library.Sublist"
begin

section \<open>kvm-vm-tune: the command runner, the process state and the Go library functions used\<close>

text \<open>
  \<^verbatim>\<open>main.go\<close> holds two renditions of the tool. The first (lines 1-293) runs every
  external tool itself through \<^verbatim>\<open>exec.Command("sudo", ...)\<close>; the second (lines 295-455)
  delegates to the packages of \<^verbatim>\<open>github.com/zinrai/libvirtwrap-go\<close>. Both are embedded
  below; the second \<^verbatim>\<open>runDiskCommand\<close> carries the suffix \<open>_lib\<close>.

  An external command is its argument vector. What the operating system answers is not
  part of the program: it is the parameter \<open>exec\<close> of the environment, a function of the
  command and of the outside world \<open>'w\<close> that returns the process result and the new world.
\<close>

type_synonym cmd = "string list"

record proc =
  err :: "string option"  \<comment> \<open>the \<^verbatim>\<open>error\<close> value, as \<^verbatim>\<open>%v\<close> prints it; \<open>None\<close> is \<^verbatim>\<open>nil\<close>\<close>
  out :: string  \<comment> \<open>standard output, what \<^verbatim>\<open>cmd.Output()\<close> returns\<close>
  combined :: string  \<comment> \<open>standard output and error, what \<^verbatim>\<open>cmd.CombinedOutput()\<close> returns\<close>

record DomainDisk =
  Device :: string
  Source_File :: string
  Target_Dev :: string

record 'w env =
  exec :: "cmd \<Rightarrow> 'w \<Rightarrow> proc \<times> 'w"
  lookPath :: "string \<Rightarrow> string option"  \<comment> \<open>\<^verbatim>\<open>exec.LookPath\<close>, used by \<^verbatim>\<open>Cmd.String()\<close>\<close>
  xmlUnmarshal :: "string \<Rightarrow> string + DomainDisk list"
    \<comment> \<open>\<^verbatim>\<open>xml.Unmarshal\<close> into \<^verbatim>\<open>Domain\<close>: the error text, or \<^verbatim>\<open>domain.Devices.Disks\<close>\<close>

text \<open>
  The state of one run of the process: the outside world, a spy on the commands executed
  (each with its result and the world it left behind), what is left of standard input, and
  the chunks written to standard output and standard error, one per print call.
\<close>

datatype libcall =
  GetVMDiskPaths string
  | IsRunning string
  | VerifyDiskBelongsToVM string string
  | ResizeAndExpandDisk string string int string

datatype libres = Paths "string + string list" | Flag "string + bool" | Done "string option"

record 'w st =
  world :: 'w
  calls :: "(cmd \<times> proc \<times> 'w) list"
  libcalls :: "(libcall \<times> libres) list"
  stdin :: string
  stdout :: "string list"
  stderr :: "string list"

datatype outcome = Returned | Exit int

definition init :: "'w \<Rightarrow> string \<Rightarrow> 'w st" where
  "init w inp = \<lparr>world = w, calls = [], libcalls = [], stdin = inp, stdout = [], stderr = []\<rparr>"

text \<open>The commands executed between two states of a run, and their argument vectors.\<close>

definition executed :: "'w st \<Rightarrow> 'w st \<Rightarrow> (cmd \<times> proc \<times> 'w) list" where
  "executed s s' = drop (length (calls s)) (calls s')"

definition cmds :: "'w st \<Rightarrow> 'w st \<Rightarrow> cmd list" where
  "cmds s s' = map fst (executed s s')"

definition run :: "'w env \<Rightarrow> cmd \<Rightarrow> 'w st \<Rightarrow> proc \<times> 'w st" where
  "run E c s =
     (case exec E c (world s) of
        (r, w') \<Rightarrow> (r, s\<lparr>world := w', calls := calls s @ [(c, r, w')]\<rparr>))"

definition Cmd_Output :: "'w env \<Rightarrow> cmd \<Rightarrow> 'w st \<Rightarrow> (string \<times> string option) \<times> 'w st" where
  "Cmd_Output E c s = (case run E c s of (r, s') \<Rightarrow> ((out r, err r), s'))"

definition Cmd_CombinedOutput :: "'w env \<Rightarrow> cmd \<Rightarrow> 'w st \<Rightarrow> (string \<times> string option) \<times> 'w st" where
  "Cmd_CombinedOutput E c s = (case run E c s of (r, s') \<Rightarrow> ((combined r, err r), s'))"

definition Cmd_Run :: "'w env \<Rightarrow> cmd \<Rightarrow> 'w st \<Rightarrow> string option \<times> 'w st" where
  "Cmd_Run E c s = (case run E c s of (r, s') \<Rightarrow> (err r, s'))"

definition print :: "string \<Rightarrow> 'w st \<Rightarrow> 'w st" where
  "print x s = s\<lparr>stdout := stdout s @ [x]\<rparr>"

definition eprint :: "string \<Rightarrow> 'w st \<Rightarrow> 'w st" where
  "eprint x s = s\<lparr>stderr := stderr s @ [x]\<rparr>"

definition nl :: string where
  "nl = [CHR 0x0A]"

definition sq :: string where
  "sq = [CHR 0x27]"

text \<open>\<^verbatim>\<open>strings.Join(xs, " ")\<close>.\<close>

fun Join :: "string list \<Rightarrow> string" where
  "Join [] = []"
| "Join [x] = x"
| "Join (x # y # ys) = x @ '' '' @ Join (y # ys)"

text \<open>
  \<^verbatim>\<open>Cmd.String()\<close>: the resolved path of the executable followed by the arguments, or
  the arguments as given when the executable was not found.
\<close>

fun Cmd_String :: "'w env \<Rightarrow> cmd \<Rightarrow> string" where
  "Cmd_String E [] = []"
| "Cmd_String E (name # args) =
     (case lookPath E name of None \<Rightarrow> Join (name # args) | Some p \<Rightarrow> Join (p # args))"

text \<open>\<^verbatim>\<open>fmt.Sprintf("%d", n)\<close> on an \<^verbatim>\<open>int\<close>: decimal digits, a minus sign when negative.\<close>

definition digit :: "nat \<Rightarrow> char" where
  "digit d = ''0123456789'' ! d"

fun digits :: "nat \<Rightarrow> string" where
  "digits n = (if n < 10 then [digit n] else digits (n div 10) @ [digit (n mod 10)])"

declare digits.simps [simp del]

definition itoa :: "int \<Rightarrow> string" where
  "itoa i = (if i < 0 then ''-'' @ digits (nat (- i)) else digits (nat i))"

section \<open>The resource mutator: \<^verbatim>\<open>changeCPUCount\<close> and \<^verbatim>\<open>changeMemorySize\<close> (lines 253-281)\<close>

definition cpuMaxCmd :: "string \<Rightarrow> int \<Rightarrow> cmd" where
  "cpuMaxCmd vmName cpuCount =
     [''sudo'', ''virsh'', ''setvcpus'', vmName, itoa cpuCount, ''--config'', ''--maximum'']"

definition cpuCurrentCmd :: "string \<Rightarrow> int \<Rightarrow> cmd" where
  "cpuCurrentCmd vmName cpuCount =
     [''sudo'', ''virsh'', ''setvcpus'', vmName, itoa cpuCount, ''--config'']"

definition changeCPUCount :: "'w env \<Rightarrow> string \<Rightarrow> int \<Rightarrow> 'w st \<Rightarrow> string option \<times> 'w st" where
  "changeCPUCount E vmName cpuCount s =
     (case Cmd_Run E (cpuMaxCmd vmName cpuCount) s of
        (Some e, s1) \<Rightarrow> (Some (''failed to set maximum CPU count: '' @ e), s1)
      | (None, s1) \<Rightarrow>
          (case Cmd_Run E (cpuCurrentCmd vmName cpuCount) s1 of
             (Some e, s2) \<Rightarrow> (Some (''failed to set current CPU count: '' @ e), s2)
           | (None, s2) \<Rightarrow> (None, s2)))"

definition memMaxCmd :: "string \<Rightarrow> string \<Rightarrow> cmd" where
  "memMaxCmd vmName memorySize = [''sudo'', ''virsh'', ''setmaxmem'', vmName, memorySize, ''--config'']"

definition memCurrentCmd :: "string \<Rightarrow> string \<Rightarrow> cmd" where
  "memCurrentCmd vmName memorySize = [''sudo'', ''virsh'', ''setmem'', vmName, memorySize, ''--config'']"

definition changeMemorySize :: "'w env \<Rightarrow> string \<Rightarrow> string \<Rightarrow> 'w st \<Rightarrow> string option \<times> 'w st" where
  "changeMemorySize E vmName memorySize s =
     (case Cmd_CombinedOutput E (memMaxCmd vmName memorySize) s of
        ((output, Some e), s1) \<Rightarrow>
          (Some (''failed to set maximum memory: '' @ e @ '', output: '' @ output), s1)
      | ((output, None), s1) \<Rightarrow>
          (case Cmd_CombinedOutput E (memCurrentCmd vmName memorySize) s1 of
             ((output, Some e), s2) \<Rightarrow>
               (Some (''failed to set current memory: '' @ e @ '', output: '' @ output), s2)
           | ((output, None), s2) \<Rightarrow> (None, s2)))"

section \<open>Go library functions on strings\<close>

text \<open>
  \<^verbatim>\<open>strings.TrimSpace\<close> removes leading and trailing white space as Unicode defines it.
  A Go string is a byte sequence read as UTF-8, so the white-space runes are listed by
  their encodings: the six ASCII ones, U+0085, U+00A0, U+1680, U+2000 to U+200A, U+2028,
  U+2029, U+202F, U+205F and U+3000.
\<close>

definition spaceRunes :: "string list" where
  "spaceRunes =
     [[CHR 0x09], [CHR 0x0A], [CHR 0x0B], [CHR 0x0C], [CHR 0x0D], [CHR 0x20],
      [CHR 0xC2, CHR 0x85], [CHR 0xC2, CHR 0xA0], [CHR 0xE1, CHR 0x9A, CHR 0x80],
      [CHR 0xE2, CHR 0x80, CHR 0x80], [CHR 0xE2, CHR 0x80, CHR 0x81],
      [CHR 0xE2, CHR 0x80, CHR 0x82], [CHR 0xE2, CHR 0x80, CHR 0x83],
      [CHR 0xE2, CHR 0x80, CHR 0x84], [CHR 0xE2, CHR 0x80, CHR 0x85],
      [CHR 0xE2, CHR 0x80, CHR 0x86], [CHR 0xE2, CHR 0x80, CHR 0x87],
      [CHR 0xE2, CHR 0x80, CHR 0x88], [CHR 0xE2, CHR 0x80, CHR 0x89],
      [CHR 0xE2, CHR 0x80, CHR 0x8A], [CHR 0xE2, CHR 0x80, CHR 0xA8],
      [CHR 0xE2, CHR 0x80, CHR 0xA9], [CHR 0xE2, CHR 0x80, CHR 0xAF],
      [CHR 0xE2, CHR 0x81, CHR 0x9F], [CHR 0xE3, CHR 0x80, CHR 0x80]]"

text \<open>The string without the first of the given sequences that it starts with, if any.\<close>

fun stripOne :: "string list \<Rightarrow> string \<Rightarrow> string option" where
  "stripOne [] s = None"
| "stripOne (p # ps) s =
     (if p \<noteq> [] \<and> take (length p) s = p then Some (drop (length p) s) else stripOne ps s)"

function trimStart :: "string list \<Rightarrow> string \<Rightarrow> string" where
  "trimStart ps s = (case stripOne ps s of None \<Rightarrow> s | Some t \<Rightarrow> trimStart ps t)"
  by pat_completeness auto
termination
proof (relation "measure (\<lambda>(ps, s). length s)")
  show "wf (measure (\<lambda>(ps :: string list, s :: string). length s))"
    by simp
next
  fix ps :: "string list" and s t :: string
  assume "stripOne ps s = Some t"
  then have "length t < length s"
  proof (induction ps)
    case Nil
    then show ?case by simp
  next
    case (Cons p ps)
    show ?case
    proof (cases "p \<noteq> [] \<and> take (length p) s = p")
      case True
      then have "t = drop (length p) s" using Cons.prems by simp
      moreover have "s \<noteq> []" using True by auto
      moreover have "0 < length p" using True by simp
      ultimately show ?thesis by simp
    next
      case False
      then show ?thesis using Cons by auto
    qed
  qed
  then show "((ps, t), (ps, s)) \<in> measure (\<lambda>(ps, s). length s)"
    by simp
qed

declare trimStart.simps [simp del]

definition TrimSpace :: "string \<Rightarrow> string" where
  "TrimSpace s = rev (trimStart (map rev spaceRunes) (rev (trimStart spaceRunes s)))"

text \<open>
  \<^verbatim>\<open>strings.ToLower\<close>: the ASCII capitals are mapped to their small letters. Bytes from
  0x80 on are kept as they are; Go maps the runes they encode by the Unicode tables, and
  no rune outside ASCII has a small letter inside ASCII other than \<open>k\<close> and \<open>i\<close>, so the
  comparison of the result with \<open>y\<close> and \<open>yes\<close> is the same.
\<close>

definition lowerChar :: "char \<Rightarrow> char" where
  "lowerChar c =
     (case map_of (zip ''ABCDEFGHIJKLMNOPQRSTUVWXYZ'' ''abcdefghijklmnopqrstuvwxyz'') c of
        None \<Rightarrow> c
      | Some l \<Rightarrow> l)"

definition ToLower :: "string \<Rightarrow> string" where
  "ToLower s = map lowerChar s"

text \<open>\<^verbatim>\<open>strings.Split(s, "\n")\<close>: always at least one piece.\<close>

fun Split_nl :: "string \<Rightarrow> string list" where
  "Split_nl [] = [[]]"
| "Split_nl (c # cs) =
     (if c = CHR 0x0A then [] # Split_nl cs
      else (case Split_nl cs of [] \<Rightarrow> [[c]] | l # ls \<Rightarrow> (c # l) # ls))"

text \<open>
  \<^verbatim>\<open>reader.ReadString('\n')\<close>: the input up to and including the first newline, or all
  of it when there is none (the error Go returns then is dropped by the caller). The
  second component is the input left.
\<close>

fun ReadString_nl :: "string \<Rightarrow> string \<times> string" where
  "ReadString_nl [] = ([], [])"
| "ReadString_nl (c # cs) =
     (if c = CHR 0x0A then ([c], cs) else (case ReadString_nl cs of (l, r) \<Rightarrow> (c # l, r)))"

section \<open>The VM state queries: \<^verbatim>\<open>getVMDisks\<close> and \<^verbatim>\<open>isVMStopped\<close> (lines 173-207)\<close>

definition dumpxmlCmd :: "string \<Rightarrow> cmd" where
  "dumpxmlCmd vmName = [''sudo'', ''virsh'', ''dumpxml'', vmName]"

definition getVMDisks :: "'w env \<Rightarrow> string \<Rightarrow> 'w st \<Rightarrow> (string + DomainDisk list) \<times> 'w st" where
  "getVMDisks E vmName s =
     (case Cmd_Output E (dumpxmlCmd vmName) s of
        ((output, Some e), s1) \<Rightarrow> (Inl (''failed to execute virsh dumpxml: '' @ e), s1)
      | ((output, None), s1) \<Rightarrow>
          (case xmlUnmarshal E output of
             Inl e \<Rightarrow> (Inl (''failed to parse XML: '' @ e), s1)
           | Inr disks \<Rightarrow>
               if length disks = 0
               then (Inl (''no disks found for VM '' @ sq @ vmName @ sq), s1)
               else (Inr disks, s1)))"

definition listCmd :: cmd where
  "listCmd = [''sudo'', ''virsh'', ''list'', ''--name'', ''--state-running'']"

text \<open>The loop over \<^verbatim>\<open>runningVMs\<close>: false at the first name equal to \<^verbatim>\<open>vmName\<close>.\<close>

fun notListed :: "string list \<Rightarrow> string \<Rightarrow> bool" where
  "notListed [] vmName = True"
| "notListed (vm # vms) vmName = (if vm = vmName then False else notListed vms vmName)"

definition isVMStopped :: "'w env \<Rightarrow> string \<Rightarrow> 'w st \<Rightarrow> bool \<times> 'w st" where
  "isVMStopped E vmName s =
     (case Cmd_Output E listCmd s of
        ((output, Some e), s1) \<Rightarrow>
          (False, print (''Failed to get list of running VMs: '' @ e @ nl) s1)
      | ((output, None), s1) \<Rightarrow> (notListed (Split_nl (TrimSpace output)) vmName, s1))"

section \<open>The disk pipeline: \<^verbatim>\<open>resizeAndExpandDisk\<close> (lines 209-251)\<close>

definition createCmd :: "string \<Rightarrow> string \<Rightarrow> cmd" where
  "createCmd newImagePath newSize =
     [''sudo'', ''qemu-img'', ''create'', ''-f'', ''qcow2'', ''-o'', ''preallocation=metadata'',
      newImagePath, newSize]"

definition resizeCmd :: "string \<Rightarrow> int \<Rightarrow> string \<Rightarrow> string \<Rightarrow> cmd" where
  "resizeCmd device part imagePath newImagePath =
     [''sudo'', ''virt-resize'', ''--expand'', ''/dev/'' @ device @ itoa part,
      imagePath, newImagePath]"

definition rmCmd :: "string \<Rightarrow> cmd" where
  "rmCmd newImagePath = [''sudo'', ''rm'', newImagePath]"

definition mvCmd :: "string \<Rightarrow> string \<Rightarrow> cmd" where
  "mvCmd newImagePath imagePath = [''sudo'', ''mv'', newImagePath, imagePath]"

definition resizeAndExpandDisk ::
  "'w env \<Rightarrow> string \<Rightarrow> string \<Rightarrow> int \<Rightarrow> string \<Rightarrow> 'w st \<Rightarrow> string option \<times> 'w st" where
  "resizeAndExpandDisk E imagePath device part newSize s =
     (let newImagePath = imagePath @ ''.new'';
          s1 = print (''Creating new image...'' @ nl) s;
          s2 = print (''Executing command: '' @ Cmd_String E (createCmd newImagePath newSize) @ nl) s1
      in case Cmd_CombinedOutput E (createCmd newImagePath newSize) s2 of
           ((output, Some e), s3) \<Rightarrow>
             (Some (''failed to create new image: '' @ e @ '', output: '' @ output), s3)
         | ((output, None), s3) \<Rightarrow>
             (let s4 = print (''Resizing disk...'' @ nl) s3;
                  s5 = print (''Executing command: ''
                         @ Cmd_String E (resizeCmd device part imagePath newImagePath) @ nl) s4
              in case Cmd_CombinedOutput E (resizeCmd device part imagePath newImagePath) s5 of
                   ((output, Some e), s6) \<Rightarrow>
                     (case Cmd_CombinedOutput E (rmCmd newImagePath) s6 of
                        ((rmOutput, Some rmErr), s7) \<Rightarrow>
                          (Some (''virt-resize failed: '' @ e @ '', output: '' @ output
                             @ ''. Additionally, failed to remove new image: '' @ rmErr
                             @ '', output: '' @ rmOutput), s7)
                      | ((rmOutput, None), s7) \<Rightarrow>
                          (Some (''virt-resize failed: '' @ e @ '', output: '' @ output
                             @ ''. New image was removed.''), s7))
                 | ((output, None), s6) \<Rightarrow>
                     (let s7 = print (''virt-resize output:'' @ nl @ output @ nl) s6;
                          s8 = print (''Replacing original image with resized image...'' @ nl) s7;
                          s9 = print (''Executing command: ''
                                 @ Cmd_String E (mvCmd newImagePath imagePath) @ nl) s8
                      in case Cmd_Run E (mvCmd newImagePath imagePath) s9 of
                           (Some e, s10) \<Rightarrow>
                             (case Cmd_CombinedOutput E (rmCmd newImagePath) s10 of
                                ((rmOutput, Some rmErr), s11) \<Rightarrow>
                                  (Some (''failed to replace original image: '' @ e
                                     @ ''. Additionally, failed to remove new image: '' @ rmErr
                                     @ '', output: '' @ rmOutput), s11)
                              | ((rmOutput, None), s11) \<Rightarrow>
                                  (Some (''failed to replace original image: '' @ e
                                     @ ''. New image was removed.''), s11))
                         | (None, s10) \<Rightarrow> (None, print (''Disk expansion completed.'' @ nl) s10))))"

section \<open>The dry-run formatter: \<^verbatim>\<open>printResizeCommand\<close> (lines 287-293)\<close>

definition printResizeCommand :: "string \<Rightarrow> string \<Rightarrow> int \<Rightarrow> string \<Rightarrow> 'w st \<Rightarrow> 'w st" where
  "printResizeCommand imagePath device part newSize s =
     (let newImagePath = imagePath @ ''.new'';
          s1 = print (''Command: sudo qemu-img create -f qcow2 -o preallocation=metadata ''
                 @ newImagePath @ '' '' @ newSize @ nl) s;
          s2 = print (''Command: sudo virt-resize --expand /dev/'' @ device @ itoa part
                 @ '' '' @ imagePath @ '' '' @ newImagePath @ nl) s1
      in print (''Command: sudo mv '' @ newImagePath @ '' '' @ imagePath @ nl) s2)"

section \<open>The disk subcommand: \<^verbatim>\<open>runDiskCommand\<close> (lines 121-171)\<close>

text \<open>
  The flags of the \<^verbatim>\<open>disk\<close> subcommand are package variables that cobra fills in before
  \<^verbatim>\<open>runDiskCommand\<close> runs; \<^verbatim>\<open>cobra.ExactArgs(1)\<close> leaves exactly one argument, the VM
  name. \<^verbatim>\<open>os.Exit(n)\<close> ends the run with \<open>Exit n\<close>; a plain return is \<open>Returned\<close>, after
  which \<^verbatim>\<open>main\<close> ends with status 0.
\<close>

record flags =
  imagePath_flag :: string
  device_flag :: string
  partition_flag :: int
  size_flag :: string
  dryRun_flag :: bool

definition exit_status :: "outcome \<Rightarrow> int" where
  "exit_status x = (case x of Returned \<Rightarrow> 0 | Exit n \<Rightarrow> n)"

definition runDiskCommand :: "'w env \<Rightarrow> flags \<Rightarrow> string \<Rightarrow> 'w st \<Rightarrow> outcome \<times> 'w st" where
  "runDiskCommand E F vmName s =
     (case (if imagePath_flag F = []
            then (case getVMDisks E vmName s of
                    (Inl e, s1) \<Rightarrow>
                      (Inl (Exit 1),
                       eprint (''Failed to get disk information for VM '' @ sq @ vmName @ sq
                         @ '': '' @ e @ nl) s1)
                  | (Inr disks, s1) \<Rightarrow>
                      (case disks of
                         [] \<Rightarrow> (Inl (Exit 1), eprint (''No disks found for VM '' @ sq @ vmName @ sq @ nl) s1)
                       | d # ds \<Rightarrow> (Inr (Source_File d), s1)))
            else (Inr (imagePath_flag F), s)) of
        (Inl x, s1) \<Rightarrow> (x, s1)
      | (Inr path, s1) \<Rightarrow>
          (let s2 = print (''Selected disk: '' @ path @ '' (device: '' @ device_flag F @ '')'' @ nl) s1
           in case isVMStopped E vmName s2 of
                (stopped, s3) \<Rightarrow>
                  if \<not> stopped
                  then (Exit 1,
                        eprint (''VM '' @ sq @ vmName @ sq
                          @ '' is currently running. Please stop the VM before making changes.'' @ nl) s3)
                  else if size_flag F = []
                  then (Exit 1, eprint (''Please specify the new size using the --size option'' @ nl) s3)
                  else if dryRun_flag F
                  then (Returned, printResizeCommand path (device_flag F) (partition_flag F) (size_flag F) s3)
                  else
                    (let s4 = print (''WARNING: This operation will modify the disk image.'' @ nl) s3;
                         s5 = print ''Do you want to continue? (y/N): '' s4;
                         s6 = s5\<lparr>stdin := snd (ReadString_nl (stdin s5))\<rparr>;
                         response = ToLower (TrimSpace (fst (ReadString_nl (stdin s5))))
                     in if response \<noteq> ''y'' \<and> response \<noteq> ''yes''
                        then (Exit 0, print (''Operation cancelled.'' @ nl) s6)
                        else (case resizeAndExpandDisk E path (device_flag F) (partition_flag F) (size_flag F) s6 of
                                (Some e, s7) \<Rightarrow>
                                  (Exit 1, eprint (''Failed to resize and expand disk: '' @ e @ nl) s7)
                              | (None, s7) \<Rightarrow>
                                  (Returned, print (''Disk expansion completed successfully.'' @ nl) s7)))))"

section \<open>The disk subcommand over libvirtwrap-go: \<^verbatim>\<open>runDiskCommand\<close> (lines 400-455)\<close>

text \<open>
  The packages \<^verbatim>\<open>virsh\<close>, \<^verbatim>\<open>vm\<close> and \<^verbatim>\<open>disk\<close> belong to another repository. Their four
  functions called here are parameters: each acts on the outside world and returns its Go
  result, an error text on the left of a sum. Every call is recorded with its result.
\<close>

record 'w lib =
  lib_GetVMDiskPaths :: "string \<Rightarrow> 'w \<Rightarrow> (string + string list) \<times> 'w"
  lib_IsRunning :: "string \<Rightarrow> 'w \<Rightarrow> (string + bool) \<times> 'w"
  lib_VerifyDiskBelongsToVM :: "string \<Rightarrow> string \<Rightarrow> 'w \<Rightarrow> (string + bool) \<times> 'w"
  lib_ResizeAndExpandDisk :: "string \<Rightarrow> string \<Rightarrow> int \<Rightarrow> string \<Rightarrow> 'w \<Rightarrow> string option \<times> 'w"

definition libexecuted :: "'w st \<Rightarrow> 'w st \<Rightarrow> (libcall \<times> libres) list" where
  "libexecuted s s' = drop (length (libcalls s)) (libcalls s')"

definition virsh_GetVMDiskPaths :: "'w lib \<Rightarrow> string \<Rightarrow> 'w st \<Rightarrow> (string + string list) \<times> 'w st" where
  "virsh_GetVMDiskPaths L vmName s =
     (case lib_GetVMDiskPaths L vmName (world s) of
        (r, w') \<Rightarrow> (r, s\<lparr>world := w', libcalls := libcalls s @ [(GetVMDiskPaths vmName, Paths r)]\<rparr>))"

definition vm_IsRunning :: "'w lib \<Rightarrow> string \<Rightarrow> 'w st \<Rightarrow> (string + bool) \<times> 'w st" where
  "vm_IsRunning L vmName s =
     (case lib_IsRunning L vmName (world s) of
        (r, w') \<Rightarrow> (r, s\<lparr>world := w', libcalls := libcalls s @ [(IsRunning vmName, Flag r)]\<rparr>))"

definition vm_VerifyDiskBelongsToVM :: "'w lib \<Rightarrow> string \<Rightarrow> string \<Rightarrow> 'w st \<Rightarrow> (string + bool) \<times> 'w st" where
  "vm_VerifyDiskBelongsToVM L vmName p s =
     (case lib_VerifyDiskBelongsToVM L vmName p (world s) of
        (r, w') \<Rightarrow>
          (r, s\<lparr>world := w', libcalls := libcalls s @ [(VerifyDiskBelongsToVM vmName p, Flag r)]\<rparr>))"

definition disk_ResizeAndExpandDisk ::
  "'w lib \<Rightarrow> string \<Rightarrow> string \<Rightarrow> int \<Rightarrow> string \<Rightarrow> 'w st \<Rightarrow> string option \<times> 'w st" where
  "disk_ResizeAndExpandDisk L p dev part newSize s =
     (case lib_ResizeAndExpandDisk L p dev part newSize (world s) of
        (r, w') \<Rightarrow>
          (r, s\<lparr>world := w',
                libcalls := libcalls s @ [(ResizeAndExpandDisk p dev part newSize, Done r)]\<rparr>))"

definition runDiskCommand_lib :: "'w lib \<Rightarrow> flags \<Rightarrow> string \<Rightarrow> 'w st \<Rightarrow> outcome \<times> 'w st" where
  "runDiskCommand_lib L F vmName s =
     (case (if imagePath_flag F = []
            then (case virsh_GetVMDiskPaths L vmName s of
                    (Inl e, s1) \<Rightarrow>
                      (Inl (Exit 1),
                       eprint (''Failed to get disk information for VM '' @ sq @ vmName @ sq
                         @ '': '' @ e @ nl) s1)
                  | (Inr disks, s1) \<Rightarrow>
                      (case disks of
                         [] \<Rightarrow> (Inl (Exit 1), eprint (''No disks found for VM '' @ sq @ vmName @ sq @ nl) s1)
                       | d # ds \<Rightarrow> (Inr d, s1)))
            else (Inr (imagePath_flag F), s)) of
        (Inl x, s1) \<Rightarrow> (x, s1)
      | (Inr path, s1) \<Rightarrow>
          (let s2 = print (''Selected disk: '' @ path @ '' (device: '' @ device_flag F @ '')'' @ nl) s1
           in case vm_IsRunning L vmName s2 of
                (Inl e, s3) \<Rightarrow> (Exit 1, eprint (''Failed to check VM status: '' @ e @ nl) s3)
              | (Inr isRunning, s3) \<Rightarrow>
                  if isRunning
                  then (Exit 1,
                        eprint (''VM '' @ sq @ vmName @ sq
                          @ '' is currently running. Please stop the VM before making changes.'' @ nl) s3)
                  else if size_flag F = []
                  then (Exit 1, eprint (''Please specify the new size using the --size option'' @ nl) s3)
                  else if dryRun_flag F
                  then (Returned,
                        print (''Would resize disk '' @ path @ '' to '' @ size_flag F @ '' for VM ''
                          @ sq @ vmName @ sq @ nl) s3)
                  else
                    (case vm_VerifyDiskBelongsToVM L vmName path s3 of
                       (Inl e, s4) \<Rightarrow> (Exit 1, eprint (''Failed to verify disk ownership: '' @ e @ nl) s4)
                     | (Inr belongsToVM, s4) \<Rightarrow>
                         if \<not> belongsToVM
                         then (Exit 1,
                               eprint (''The specified disk does not belong to VM '' @ sq @ vmName @ sq @ nl) s4)
                         else (case disk_ResizeAndExpandDisk L path (device_flag F) (partition_flag F)
                                      (size_flag F) s4 of
                                 (Some e, s5) \<Rightarrow>
                                   (Exit 1, eprint (''Failed to resize and expand disk: '' @ e @ nl) s5)
                               | (None, s5) \<Rightarrow>
                                   (Returned,
                                    print (''Disk expansion completed successfully for VM '' @ sq @ vmName
                                      @ sq @ ''.'' @ nl) s5)))))"

section \<open>An outside world of files\<close>

text \<open>
  The external tools are not part of the repository; what follows is the contract the
  pipeline relies on, with every outcome left open. The world is a map from paths to file
  contents. For each command an oracle fixes the process result, the content the tool
  writes at its destination when it succeeds, and what it leaves there when it fails.
  \<^verbatim>\<open>qemu-img create\<close> and \<^verbatim>\<open>virt-resize\<close> write the image they produce only,
  \<^verbatim>\<open>rm\<close> removes its argument, \<^verbatim>\<open>mv\<close> renames; a failed \<^verbatim>\<open>rm\<close> or \<^verbatim>\<open>mv\<close>
  changes nothing, and the \<^verbatim>\<open>virsh\<close> queries touch no file. Paths name files: two
  different paths are two different files.
\<close>

type_synonym files = "string \<rightharpoonup> string"

record answer =
  res :: proc
  written :: string
  leftover :: "string option"

definition fs_effect :: "cmd \<Rightarrow> answer \<Rightarrow> files \<Rightarrow> files" where
  "fs_effect c a f =
     (if length c = 9 \<and> take 3 c = [''sudo'', ''qemu-img'', ''create'']
      then (if err (res a) = None then f(c ! 7 \<mapsto> written a) else f(c ! 7 := leftover a))
      else if length c = 6 \<and> take 2 c = [''sudo'', ''virt-resize'']
      then (if err (res a) = None then f(c ! 5 \<mapsto> written a) else f(c ! 5 := leftover a))
      else if length c = 3 \<and> take 2 c = [''sudo'', ''rm'']
      then (if err (res a) = None then f(c ! 2 := None) else f)
      else if length c = 4 \<and> take 2 c = [''sudo'', ''mv'']
      then (if err (res a) = None then f(c ! 3 := f (c ! 2), c ! 2 := None) else f)
      else f)"

definition fs_exec :: "(cmd \<Rightarrow> answer) \<Rightarrow> cmd \<Rightarrow> files \<Rightarrow> proc \<times> files" where
  "fs_exec oracle c f = (res (oracle c), fs_effect c (oracle c) f)"

section \<open>Auxiliary notions\<close>

text \<open>
  The part of the first \<^verbatim>\<open>runDiskCommand\<close> that follows the call of \<^verbatim>\<open>isVMStopped\<close>
  (lines 139-171), as a function of the selected disk, of what \<^verbatim>\<open>isVMStopped\<close> returned
  and of the state it left.
\<close>

definition afterChecks :: "'w env \<Rightarrow> flags \<Rightarrow> string \<Rightarrow> string \<Rightarrow> bool \<Rightarrow> 'w st \<Rightarrow> outcome \<times> 'w st" where
  "afterChecks E F vmName path stopped s3 =
     (if \<not> stopped
                  then (Exit 1,
                        eprint (''VM '' @ sq @ vmName @ sq
                          @ '' is currently running. Please stop the VM before making changes.'' @ nl) s3)
                  else if size_flag F = []
                  then (Exit 1, eprint (''Please specify the new size using the --size option'' @ nl) s3)
                  else if dryRun_flag F
                  then (Returned, printResizeCommand path (device_flag F) (partition_flag F) (size_flag F) s3)
                  else
                    (let s4 = print (''WARNING: This operation will modify the disk image.'' @ nl) s3;
                         s5 = print ''Do you want to continue? (y/N): '' s4;
                         s6 = s5\<lparr>stdin := snd (ReadString_nl (stdin s5))\<rparr>;
                         response = ToLower (TrimSpace (fst (ReadString_nl (stdin s5))))
                     in if response \<noteq> ''y'' \<and> response \<noteq> ''yes''
                        then (Exit 0, print (''Operation cancelled.'' @ nl) s6)
                        else (case resizeAndExpandDisk E path (device_flag F) (partition_flag F) (size_flag F) s6 of
                                (Some e, s7) \<Rightarrow>
                                  (Exit 1, eprint (''Failed to resize and expand disk: '' @ e @ nl) s7)
                              | (None, s7) \<Rightarrow>
                                  (Returned, print (''Disk expansion completed successfully.'' @ nl) s7))))"

text \<open>
  The test of the confirmation prompt (lines 157-161): the first line of standard input,
  trimmed and in small letters, is \<open>y\<close> or \<open>yes\<close>.
\<close>

definition affirmative :: "string \<Rightarrow> bool" where
  "affirmative inp =
     (let response = ToLower (TrimSpace (fst (ReadString_nl inp)))
      in response = ''y'' \<or> response = ''yes'')"

text \<open>
  The part of the second \<^verbatim>\<open>runDiskCommand\<close> that follows the selection of the disk
  (lines 418-455).
\<close>

definition afterSelect :: "'w lib \<Rightarrow> flags \<Rightarrow> string \<Rightarrow> string \<Rightarrow> 'w st \<Rightarrow> outcome \<times> 'w st" where
  "afterSelect L F vmName path s1 =
          (let s2 = print (''Selected disk: '' @ path @ '' (device: '' @ device_flag F @ '')'' @ nl) s1
           in case vm_IsRunning L vmName s2 of
                (Inl e, s3) \<Rightarrow> (Exit 1, eprint (''Failed to check VM status: '' @ e @ nl) s3)
              | (Inr isRunning, s3) \<Rightarrow>
                  if isRunning
                  then (Exit 1,
                        eprint (''VM '' @ sq @ vmName @ sq
                          @ '' is currently running. Please stop the VM before making changes.'' @ nl) s3)
                  else if size_flag F = []
                  then (Exit 1, eprint (''Please specify the new size using the --size option'' @ nl) s3)
                  else if dryRun_flag F
                  then (Returned,
                        print (''Would resize disk '' @ path @ '' to '' @ size_flag F @ '' for VM ''
                          @ sq @ vmName @ sq @ nl) s3)
                  else
                    (case vm_VerifyDiskBelongsToVM L vmName path s3 of
                       (Inl e, s4) \<Rightarrow> (Exit 1, eprint (''Failed to verify disk ownership: '' @ e @ nl) s4)
                     | (Inr belongsToVM, s4) \<Rightarrow>
                         if \<not> belongsToVM
                         then (Exit 1,
                               eprint (''The specified disk does not belong to VM '' @ sq @ vmName @ sq @ nl) s4)
                         else (case disk_ResizeAndExpandDisk L path (device_flag F) (partition_flag F)
                                      (size_flag F) s4 of
                                 (Some e, s5) \<Rightarrow>
                                   (Exit 1, eprint (''Failed to resize and expand disk: '' @ e @ nl) s5)
                               | (None, s5) \<Rightarrow>
                                   (Returned,
                                    print (''Disk expansion completed successfully for VM '' @ sq @ vmName
                                      @ sq @ ''.'' @ nl) s5))))"

section \<open>Sample environments\<close>

definition ok :: proc where
  "ok = \<lparr>err = None, out = [], combined = []\<rparr>"

definition failed :: "string \<Rightarrow> string \<Rightarrow> proc" where
  "failed e text = \<lparr>err = Some e, out = [], combined = text\<rparr>"

definition fs_env :: "(cmd \<Rightarrow> answer) \<Rightarrow> files env" where
  "fs_env oracle =
     \<lparr>exec = fs_exec oracle, lookPath = (\<lambda>name. Some (''/usr/bin/'' @ name)),
      xmlUnmarshal =
        (\<lambda>x. Inr [\<lparr>Device = ''disk'', Source_File = ''/data/vm1.img'', Target_Dev = ''vda''\<rparr>])\<rparr>"

definition current_fails :: "cmd \<Rightarrow> answer" where
  "current_fails c =
     \<lparr>res = (if c = cpuCurrentCmd ''vm1'' 4 \<or> c = memCurrentCmd ''vm1'' ''8G''
              then failed ''exit status 1'' ''error: domain is busy'' else ok),
      written = [], leftover = None\<rparr>"

definition all_ok :: "cmd \<Rightarrow> answer" where
  "all_ok c = \<lparr>res = ok, written = (if take 2 c = [''sudo'', ''virt-resize''] then ''resized image'' else ''empty image''),
               leftover = None\<rparr>"

definition resize_and_rm_fail :: "cmd \<Rightarrow> answer" where
  "resize_and_rm_fail c =
     \<lparr>res = (if take 2 c = [''sudo'', ''virt-resize''] then failed ''exit status 1'' ''virt-resize: no space left''
              else if take 2 c = [''sudo'', ''rm''] then failed ''exit status 2'' ''rm: permission denied''
              else ok),
      written = ''empty image'', leftover = Some ''partial image''\<rparr>"


definition disk0 :: files where
  "disk0 = [''/data/vm1.img'' \<mapsto> ''old image'']"

definition vm1_running :: "cmd \<Rightarrow> answer" where
  "vm1_running c =
     \<lparr>res = (if c = listCmd then \<lparr>err = None, out = ''web'' @ nl @ ''vm1'' @ nl @ nl, combined = []\<rparr> else ok),
      written = ''empty image'', leftover = None\<rparr>"

definition list_fails :: "cmd \<Rightarrow> answer" where
  "list_fails c =
     \<lparr>res = (if c = listCmd then failed ''exit status 1'' ''error: failed to connect to the hypervisor'' else ok),
      written = ''empty image'', leftover = None\<rparr>"

definition expand_vm1 :: flags where
  "expand_vm1 =
     \<lparr>imagePath_flag = ''/data/vm1.img'', device_flag = ''vda'', partition_flag = 1, size_flag = ''40G'',
      dryRun_flag = False\<rparr>"

definition lib_ok :: "files lib" where
  "lib_ok =
     \<lparr>lib_GetVMDiskPaths = (\<lambda>vmName w. (Inr [''/data/vm1.img''], w)),
      lib_IsRunning = (\<lambda>vmName w. (Inr False, w)),
      lib_VerifyDiskBelongsToVM = (\<lambda>vmName p w. (Inr (p = ''/data/vm1.img''), w)),
      lib_ResizeAndExpandDisk = (\<lambda>p dev part newSize w. (None, w(p \<mapsto> ''resized image'')))\<rparr>"

definition disk1 :: files where
  "disk1 = [''/data/vm1.img'' \<mapsto> ''old image'', ''/data/other.img'' \<mapsto> ''image of another VM'']"

definition expand_other :: flags where
  "expand_other =
     \<lparr>imagePath_flag = ''/data/other.img'', device_flag = ''vda'', partition_flag = 1, size_flag = ''40G'',
      dryRun_flag = False\<rparr>"

definition dry_vm1 :: flags where
  "dry_vm1 = expand_vm1\<lparr>dryRun_flag := True\<rparr>"

definition no_size :: flags where
  "no_size = expand_vm1\<lparr>size_flag := []\<rparr>"

section \<open>How the functions act on the state\<close>

lemma print_fields [simp]:
  "world (print x s) = world s" "calls (print x s) = calls s" "libcalls (print x s) = libcalls s"
  "stdin (print x s) = stdin s" "stderr (print x s) = stderr s" "stdout (print x s) = stdout s @ [x]"
  by (simp_all add: print_def)

lemma eprint_fields [simp]:
  "world (eprint x s) = world s" "calls (eprint x s) = calls s" "libcalls (eprint x s) = libcalls s"
  "stdin (eprint x s) = stdin s" "stdout (eprint x s) = stdout s" "stderr (eprint x s) = stderr s @ [x]"
  by (simp_all add: eprint_def)

lemma run_fields [simp]:
  "fst (run E c s) = fst (exec E c (world s))"
  "world (snd (run E c s)) = snd (exec E c (world s))"
  "calls (snd (run E c s)) = calls s @ [(c, exec E c (world s))]"
  "libcalls (snd (run E c s)) = libcalls s"
  "stdin (snd (run E c s)) = stdin s"
  "stdout (snd (run E c s)) = stdout s"
  "stderr (snd (run E c s)) = stderr s"
  by (simp_all add: run_def split: prod.splits)

lemma Cmd_CombinedOutput_run:
  "Cmd_CombinedOutput E c s =
     ((combined (fst (exec E c (world s))), err (fst (exec E c (world s)))), snd (run E c s))"
  by (cases "run E c s") (simp add: Cmd_CombinedOutput_def run_def split: prod.splits)

lemma Cmd_Output_run:
  "Cmd_Output E c s =
     ((out (fst (exec E c (world s))), err (fst (exec E c (world s)))), snd (run E c s))"
  by (cases "run E c s") (simp add: Cmd_Output_def run_def split: prod.splits)

lemma Cmd_Run_run:
  "Cmd_Run E c s = (err (fst (exec E c (world s))), snd (run E c s))"
  by (cases "run E c s") (simp add: Cmd_Run_def run_def split: prod.splits)

lemmas Cmd_run = Cmd_CombinedOutput_run Cmd_Output_run Cmd_Run_run

lemma executed_append: "calls s' = calls s @ xs \<Longrightarrow> executed s s' = xs"
  by (simp add: executed_def)

lemma resize_cases:
  fixes E :: "'w env"
  defines "new \<equiv> \<lambda>img :: string. img @ ''.new''"
  assumes run: "resizeAndExpandDisk E img dev part sz s = (r, s')"
  obtains
    (create_failed) p1 w1 e where
      "exec E (createCmd (new img) sz) (world s) = (p1, w1)" "err p1 = Some e"
      "calls s' = calls s @ [(createCmd (new img) sz, p1, w1)]" "world s' = w1"
      "r = Some (''failed to create new image: '' @ e @ '', output: '' @ combined p1)"
  | (resize_failed) p1 w1 p2 w2 p3 w3 e where
      "exec E (createCmd (new img) sz) (world s) = (p1, w1)" "err p1 = None"
      "exec E (resizeCmd dev part img (new img)) w1 = (p2, w2)" "err p2 = Some e"
      "exec E (rmCmd (new img)) w2 = (p3, w3)"
      "calls s' = calls s @ [(createCmd (new img) sz, p1, w1), (resizeCmd dev part img (new img), p2, w2),
                        (rmCmd (new img), p3, w3)]" "world s' = w3"
      "r = Some (''virt-resize failed: '' @ e @ '', output: '' @ combined p2 @
             (case err p3 of None \<Rightarrow> ''. New image was removed.''
              | Some e' \<Rightarrow> ''. Additionally, failed to remove new image: '' @ e' @ '', output: '' @ combined p3))"
  | (replace_failed) p1 w1 p2 w2 p3 w3 p4 w4 e where
      "exec E (createCmd (new img) sz) (world s) = (p1, w1)" "err p1 = None"
      "exec E (resizeCmd dev part img (new img)) w1 = (p2, w2)" "err p2 = None"
      "exec E (mvCmd (new img) img) w2 = (p3, w3)" "err p3 = Some e"
      "exec E (rmCmd (new img)) w3 = (p4, w4)"
      "calls s' = calls s @ [(createCmd (new img) sz, p1, w1), (resizeCmd dev part img (new img), p2, w2),
                        (mvCmd (new img) img, p3, w3), (rmCmd (new img), p4, w4)]" "world s' = w4"
      "r = Some (''failed to replace original image: '' @ e @
             (case err p4 of None \<Rightarrow> ''. New image was removed.''
              | Some e' \<Rightarrow> ''. Additionally, failed to remove new image: '' @ e' @ '', output: '' @ combined p4))"
  | (replaced) p1 w1 p2 w2 p3 w3 where
      "exec E (createCmd (new img) sz) (world s) = (p1, w1)" "err p1 = None"
      "exec E (resizeCmd dev part img (new img)) w1 = (p2, w2)" "err p2 = None"
      "exec E (mvCmd (new img) img) w2 = (p3, w3)" "err p3 = None"
      "calls s' = calls s @ [(createCmd (new img) sz, p1, w1), (resizeCmd dev part img (new img), p2, w2),
                        (mvCmd (new img) img, p3, w3)]" "world s' = w3"
      "r = None"
proof -
  obtain p1 w1 where x1: "exec E (createCmd (new img) sz) (world s) = (p1, w1)" by force
  obtain p2 w2 where x2: "exec E (resizeCmd dev part img (new img)) w1 = (p2, w2)" by force
  show thesis
  proof (cases "err p1")
    case (Some e)
    with run x1 have "calls s' = calls s @ [(createCmd (new img) sz, p1, w1)] \<and> world s' = w1 \<and>
        r = Some (''failed to create new image: '' @ e @ '', output: '' @ combined p1)"
      by (auto simp: resizeAndExpandDisk_def Let_def Cmd_run new_def)
    then show thesis using create_failed x1 Some by blast
  next
    case c1: None
    show thesis
    proof (cases "err p2")
      case (Some e)
      obtain p3 w3 where x3: "exec E (rmCmd (new img)) w2 = (p3, w3)" by force
      from run x1 x2 x3 c1 Some have "calls s' = calls s @ [(createCmd (new img) sz, p1, w1), (resizeCmd dev part img (new img), p2, w2),
                        (rmCmd (new img), p3, w3)] \<and> world s' = w3 \<and>
         r = Some (''virt-resize failed: '' @ e @ '', output: '' @ combined p2 @
             (case err p3 of None \<Rightarrow> ''. New image was removed.''
              | Some e' \<Rightarrow> ''. Additionally, failed to remove new image: '' @ e' @ '', output: '' @ combined p3))"
        by (auto simp: resizeAndExpandDisk_def Let_def Cmd_run new_def split: option.splits)
      then show thesis using resize_failed x1 x2 x3 c1 Some by blast
    next
      case c2: None
      obtain p3 w3 where x3: "exec E (mvCmd (new img) img) w2 = (p3, w3)" by force
      show thesis
      proof (cases "err p3")
        case (Some e)
        obtain p4 w4 where x4: "exec E (rmCmd (new img)) w3 = (p4, w4)" by force
        from run x1 x2 x3 x4 c1 c2 Some have "calls s' = calls s @ [(createCmd (new img) sz, p1, w1), (resizeCmd dev part img (new img), p2, w2),
                        (mvCmd (new img) img, p3, w3), (rmCmd (new img), p4, w4)] \<and> world s' = w4 \<and>
           r = Some (''failed to replace original image: '' @ e @
             (case err p4 of None \<Rightarrow> ''. New image was removed.''
              | Some e' \<Rightarrow> ''. Additionally, failed to remove new image: '' @ e' @ '', output: '' @ combined p4))"
          by (auto simp: resizeAndExpandDisk_def Let_def Cmd_run new_def split: option.splits)
        then show thesis using replace_failed x1 x2 x3 x4 c1 c2 Some by blast
      next
        case c3: None
        from run x1 x2 x3 c1 c2 c3 have "calls s' = calls s @ [(createCmd (new img) sz, p1, w1), (resizeCmd dev part img (new img), p2, w2),
                        (mvCmd (new img) img, p3, w3)] \<and> world s' = w3 \<and> r = None"
          by (auto simp: resizeAndExpandDisk_def Let_def Cmd_run new_def)
        then show thesis using replaced x1 x2 x3 c1 c2 c3 by blast
      qed
    qed
  qed
qed

lemma getVMDisks_fields [simp]:
  "calls (snd (getVMDisks E vm s)) = calls s @ [(dumpxmlCmd vm, exec E (dumpxmlCmd vm) (world s))]"
  "world (snd (getVMDisks E vm s)) = snd (exec E (dumpxmlCmd vm) (world s))"
  "stdout (snd (getVMDisks E vm s)) = stdout s"
  "stderr (snd (getVMDisks E vm s)) = stderr s"
  "stdin (snd (getVMDisks E vm s)) = stdin s"
  "libcalls (snd (getVMDisks E vm s)) = libcalls s"
  by (simp_all add: getVMDisks_def Cmd_run split: option.splits sum.splits)

lemma isVMStopped_fields [simp]:
  "fst (isVMStopped E vm s) =
     (err (fst (exec E listCmd (world s))) = None \<and>
      notListed (Split_nl (TrimSpace (out (fst (exec E listCmd (world s)))))) vm)"
  "calls (snd (isVMStopped E vm s)) = calls s @ [(listCmd, exec E listCmd (world s))]"
  "world (snd (isVMStopped E vm s)) = snd (exec E listCmd (world s))"
  "stdout (snd (isVMStopped E vm s)) =
     stdout s @ (case err (fst (exec E listCmd (world s))) of None \<Rightarrow> []
                 | Some e \<Rightarrow> [''Failed to get list of running VMs: '' @ e @ nl])"
  "stderr (snd (isVMStopped E vm s)) = stderr s"
  "stdin (snd (isVMStopped E vm s)) = stdin s"
  "libcalls (snd (isVMStopped E vm s)) = libcalls s"
  by (simp_all add: isVMStopped_def Cmd_run split: option.splits)

lemma runDisk_cases:
  assumes run: "runDiskCommand E F vm s = (x, s')"
  obtains
    (no_disk) p0 w0 e where
      "imagePath_flag F = []" "exec E (dumpxmlCmd vm) (world s) = (p0, w0)"
      "calls s' = calls s @ [(dumpxmlCmd vm, p0, w0)]" "world s' = w0"
      "x = Exit 1" "stdout s' = stdout s" "stderr s' = stderr s @ [e]" "stdin s' = stdin s"
  | (checked) pre path p w s3 where
      "imagePath_flag F \<noteq> [] \<and> pre = [] \<and> path = imagePath_flag F \<and> exec E listCmd (world s) = (p, w)
       \<or> imagePath_flag F = [] \<and>
          (\<exists>p0 w0. exec E (dumpxmlCmd vm) (world s) = (p0, w0) \<and> pre = [(dumpxmlCmd vm, p0, w0)] \<and>
             exec E listCmd w0 = (p, w))"
      "calls s3 = calls s @ pre @ [(listCmd, p, w)]" "world s3 = w"
      "stdin s3 = stdin s" "stderr s3 = stderr s" "libcalls s3 = libcalls s"
      "stdout s3 = stdout s @ [''Selected disk: '' @ path @ '' (device: '' @ device_flag F @ '')'' @ nl]
         @ (case err p of None \<Rightarrow> [] | Some e \<Rightarrow> [''Failed to get list of running VMs: '' @ e @ nl])"
      "afterChecks E F vm path (err p = None \<and> notListed (Split_nl (TrimSpace (out p))) vm) s3 = (x, s')"
proof (cases "imagePath_flag F = []")
  case False
  obtain p w where x: "exec E listCmd (world s) = (p, w)" by force
  define s3 where "s3 = snd (isVMStopped E vm
      (print (''Selected disk: '' @ imagePath_flag F @ '' (device: '' @ device_flag F @ '')'' @ nl) s))"
  have "runDiskCommand E F vm s = afterChecks E F vm (imagePath_flag F)
          (err p = None \<and> notListed (Split_nl (TrimSpace (out p))) vm) s3"
    using False x unfolding runDiskCommand_def afterChecks_def s3_def
    by (simp add: case_prod_beta Let_def)
  then have "afterChecks E F vm (imagePath_flag F)
          (err p = None \<and> notListed (Split_nl (TrimSpace (out p))) vm) s3 = (x, s')"
    using run by simp
  moreover have "calls s3 = calls s @ [] @ [(listCmd, p, w)]" "world s3 = w" "stdin s3 = stdin s"
    "stderr s3 = stderr s" "libcalls s3 = libcalls s"
    "stdout s3 = stdout s @ [''Selected disk: '' @ imagePath_flag F @ '' (device: '' @ device_flag F @ '')'' @ nl]
         @ (case err p of None \<Rightarrow> [] | Some e \<Rightarrow> [''Failed to get list of running VMs: '' @ e @ nl])"
    using x by (simp_all add: s3_def)
  ultimately show thesis using checked[of "[]" "imagePath_flag F" p w s3] False x by blast
next
  case True
  obtain p0 w0 where x0: "exec E (dumpxmlCmd vm) (world s) = (p0, w0)" by force
  show thesis
  proof (cases "fst (getVMDisks E vm s)")
    case (Inl e)
    then have "x = Exit 1 \<and> s' = eprint (''Failed to get disk information for VM '' @ sq @ vm @ sq
                         @ '': '' @ e @ nl) (snd (getVMDisks E vm s))"
      using run True unfolding runDiskCommand_def by (auto simp add: case_prod_beta)
    then show thesis using no_disk[of p0 w0] True x0 by simp
  next
    case (Inr disks)
    show thesis
    proof (cases disks)
      case Nil
      then have "x = Exit 1 \<and> s' = eprint (''No disks found for VM '' @ sq @ vm @ sq @ nl) (snd (getVMDisks E vm s))"
        using run True Inr unfolding runDiskCommand_def by (auto simp add: case_prod_beta)
      then show thesis using no_disk[of p0 w0] True x0 by simp
    next
      case (Cons d ds)
      obtain p w where x: "exec E listCmd w0 = (p, w)" by force
      define s3 where "s3 = snd (isVMStopped E vm
        (print (''Selected disk: '' @ Source_File d @ '' (device: '' @ device_flag F @ '')'' @ nl)
           (snd (getVMDisks E vm s))))"
      have "runDiskCommand E F vm s = afterChecks E F vm (Source_File d)
          (err p = None \<and> notListed (Split_nl (TrimSpace (out p))) vm) s3"
        using True Inr Cons x x0 unfolding runDiskCommand_def afterChecks_def s3_def
        by (simp add: case_prod_beta Let_def)
      then have "afterChecks E F vm (Source_File d)
          (err p = None \<and> notListed (Split_nl (TrimSpace (out p))) vm) s3 = (x, s')"
        using run by simp
      moreover have "calls s3 = calls s @ [(dumpxmlCmd vm, p0, w0)] @ [(listCmd, p, w)]" "world s3 = w"
        "stdin s3 = stdin s" "stderr s3 = stderr s" "libcalls s3 = libcalls s"
        "stdout s3 = stdout s @ [''Selected disk: '' @ Source_File d @ '' (device: '' @ device_flag F @ '')'' @ nl]
         @ (case err p of None \<Rightarrow> [] | Some e \<Rightarrow> [''Failed to get list of running VMs: '' @ e @ nl])"
        using x x0 by (simp_all add: s3_def)
      ultimately show thesis
        using checked[of "[(dumpxmlCmd vm, p0, w0)]" "Source_File d" p w s3] True x x0 by blast
    qed
  qed
qed

lemma printResizeCommand_fields [simp]:
  "calls (printResizeCommand img dev part sz s) = calls s"
  "world (printResizeCommand img dev part sz s) = world s"
  "stderr (printResizeCommand img dev part sz s) = stderr s"
  "stdin (printResizeCommand img dev part sz s) = stdin s"
  "libcalls (printResizeCommand img dev part sz s) = libcalls s"
  "stdout (printResizeCommand img dev part sz s) =
     stdout s @ [''Command: '' @ Join (createCmd (img @ ''.new'') sz) @ nl,
                 ''Command: '' @ Join (resizeCmd dev part img (img @ ''.new'')) @ nl,
                 ''Command: '' @ Join (mvCmd (img @ ''.new'') img) @ nl]"
  by (simp_all add: printResizeCommand_def Let_def createCmd_def resizeCmd_def mvCmd_def)

lemma cmd_distinct [simp]:
  "listCmd \<noteq> dumpxmlCmd vm" "dumpxmlCmd vm \<noteq> listCmd"
  "createCmd a b \<noteq> listCmd" "resizeCmd d n i j \<noteq> listCmd" "mvCmd i j \<noteq> listCmd" "rmCmd j \<noteq> listCmd"
  "createCmd a b \<noteq> dumpxmlCmd vm" "resizeCmd d n i j \<noteq> dumpxmlCmd vm" "mvCmd i j \<noteq> dumpxmlCmd vm"
  "rmCmd j \<noteq> dumpxmlCmd vm"
  "createCmd a b \<noteq> resizeCmd d n i j" "createCmd a b \<noteq> mvCmd i j" "createCmd a b \<noteq> rmCmd j"
  "resizeCmd d n i j \<noteq> mvCmd i' j'" "resizeCmd d n i j \<noteq> rmCmd j'" "mvCmd i j \<noteq> rmCmd j'"
  "rmCmd j' \<noteq> mvCmd i j"
  "listCmd \<noteq> createCmd a b" "listCmd \<noteq> resizeCmd d n i j" "listCmd \<noteq> mvCmd i j" "listCmd \<noteq> rmCmd j"
  "dumpxmlCmd vm \<noteq> createCmd a b" "dumpxmlCmd vm \<noteq> resizeCmd d n i j" "dumpxmlCmd vm \<noteq> mvCmd i j"
  "dumpxmlCmd vm \<noteq> rmCmd j"
  "resizeCmd d n i j \<noteq> createCmd a b" "mvCmd i j \<noteq> createCmd a b" "rmCmd j \<noteq> createCmd a b"
  "mvCmd i' j' \<noteq> resizeCmd d n i j" "rmCmd j' \<noteq> resizeCmd d n i j"
  by (simp_all add: listCmd_def dumpxmlCmd_def createCmd_def resizeCmd_def mvCmd_def rmCmd_def)

lemma resize_calls:
  assumes "resizeAndExpandDisk E img dev part sz s = (r, s')"
  shows "\<exists>rest. calls s' = calls s @ rest \<and> rest \<noteq> [] \<and>
           fst ` set rest \<subseteq> {createCmd (img @ ''.new'') sz, resizeCmd dev part img (img @ ''.new''),
                                 mvCmd (img @ ''.new'') img, rmCmd (img @ ''.new'')}"
  using assms by (rule resize_cases) auto

lemma afterChecks_cases:
  assumes "afterChecks E F vm path stopped s3 = (x, s')"
  obtains
    (running) "\<not> stopped" "x = Exit 1" "calls s' = calls s3" "world s' = world s3" "stdout s' = stdout s3"
      "stderr s' = stderr s3 @ [''VM '' @ sq @ vm @ sq
          @ '' is currently running. Please stop the VM before making changes.'' @ nl]"
  | (no_size) "stopped" "size_flag F = []" "x = Exit 1" "calls s' = calls s3" "world s' = world s3"
      "stdout s' = stdout s3"
      "stderr s' = stderr s3 @ [''Please specify the new size using the --size option'' @ nl]"
  | (dry_run) "stopped" "size_flag F \<noteq> []" "dryRun_flag F" "x = Returned"
      "s' = printResizeCommand path (device_flag F) (partition_flag F) (size_flag F) s3"
  | (cancelled) "stopped" "size_flag F \<noteq> []" "\<not> dryRun_flag F" "\<not> affirmative (stdin s3)" "x = Exit 0"
      "calls s' = calls s3" "world s' = world s3" "stderr s' = stderr s3"
      "stdout s' = stdout s3 @ [''WARNING: This operation will modify the disk image.'' @ nl,
         ''Do you want to continue? (y/N): '', ''Operation cancelled.'' @ nl]"
  | (pipeline) r s6 s7 where "stopped" "size_flag F \<noteq> []" "\<not> dryRun_flag F" "affirmative (stdin s3)"
      "resizeAndExpandDisk E path (device_flag F) (partition_flag F) (size_flag F) s6 = (r, s7)"
      "calls s6 = calls s3" "world s6 = world s3" "stderr s6 = stderr s3"
      "x = (case r of None \<Rightarrow> Returned | Some e \<Rightarrow> Exit 1)"
      "calls s' = calls s7" "world s' = world s7"
      "stderr s' = stderr s7 @ (case r of None \<Rightarrow> []
         | Some e \<Rightarrow> [''Failed to resize and expand disk: '' @ e @ nl])"
proof (cases "\<not> stopped \<or> size_flag F = [] \<or> dryRun_flag F")
  case True
  then show thesis using assms running no_size dry_run
    by (auto simp: afterChecks_def split: if_splits)
next
  case False
  define s6 where "s6 = (print ''Do you want to continue? (y/N): ''
      (print (''WARNING: This operation will modify the disk image.'' @ nl) s3))
        \<lparr>stdin := snd (ReadString_nl (stdin s3))\<rparr>"
  show thesis
  proof (cases "affirmative (stdin s3)")
    case no: False
    then have "x = Exit 0 \<and> s' = print (''Operation cancelled.'' @ nl) s6"
      using assms False by (auto simp: afterChecks_def affirmative_def Let_def s6_def)
    then show thesis using cancelled False no by (simp add: s6_def)
  next
    case yes: True
    obtain r s7 where rs: "resizeAndExpandDisk E path (device_flag F) (partition_flag F) (size_flag F) s6 = (r, s7)"
      by force
    have "x = (case r of None \<Rightarrow> Returned | Some e \<Rightarrow> Exit 1) \<and>
          s' = (case r of None \<Rightarrow> print (''Disk expansion completed successfully.'' @ nl) s7
                | Some e \<Rightarrow> eprint (''Failed to resize and expand disk: '' @ e @ nl) s7)"
      using assms False yes rs
      by (auto simp: afterChecks_def affirmative_def Let_def s6_def split: option.splits)
    then show thesis using pipeline[of s6 r s7] False yes rs
      by (auto simp: s6_def split: option.splits)
  qed
qed

lemma afterChecks_calls:
  assumes "afterChecks E F vm path stopped s3 = (x, s')"
  shows "\<exists>rest. calls s' = calls s3 @ rest \<and>
           fst ` set rest \<subseteq> {createCmd (path @ ''.new'') (size_flag F),
                                 resizeCmd (device_flag F) (partition_flag F) path (path @ ''.new''),
                                 mvCmd (path @ ''.new'') path, rmCmd (path @ ''.new'')} \<and>
           (rest \<noteq> [] \<longrightarrow> stopped \<and> size_flag F \<noteq> [] \<and> \<not> dryRun_flag F \<and> affirmative (stdin s3))"
  using assms
proof (cases rule: afterChecks_cases)
  case (pipeline r s6 s7)
  then show ?thesis using resize_calls[of E path "device_flag F" "partition_flag F" "size_flag F" s6 r s7]
    by auto
qed auto

lemma runDisk_checked:
  assumes run: "runDiskCommand E F vm s = (x, s')"
    and inlog: "(listCmd, p, w) \<in> set (executed s s')"
  obtains pre path s3 where
    "imagePath_flag F \<noteq> [] \<and> pre = [] \<and> path = imagePath_flag F \<and> exec E listCmd (world s) = (p, w)
       \<or> imagePath_flag F = [] \<and>
          (\<exists>p0 w0. exec E (dumpxmlCmd vm) (world s) = (p0, w0) \<and> pre = [(dumpxmlCmd vm, p0, w0)] \<and>
             exec E listCmd w0 = (p, w))"
    "calls s3 = calls s @ pre @ [(listCmd, p, w)]" "world s3 = w"
    "stdin s3 = stdin s" "stderr s3 = stderr s" "libcalls s3 = libcalls s"
    "stdout s3 = stdout s @ [''Selected disk: '' @ path @ '' (device: '' @ device_flag F @ '')'' @ nl]
       @ (case err p of None \<Rightarrow> [] | Some e \<Rightarrow> [''Failed to get list of running VMs: '' @ e @ nl])"
    "afterChecks E F vm path (err p = None \<and> notListed (Split_nl (TrimSpace (out p))) vm) s3 = (x, s')"
  using run
proof (cases rule: runDisk_cases)
  case (no_disk p0 w0 e)
  then have "executed s s' = [(dumpxmlCmd vm, p0, w0)]" by (simp add: executed_append)
  then show ?thesis using inlog by simp
next
  case (checked pre path p' w' s3)
  obtain rest where rest: "calls s' = calls s3 @ rest"
    "fst ` set rest \<subseteq> {createCmd (path @ ''.new'') (size_flag F),
                                 resizeCmd (device_flag F) (partition_flag F) path (path @ ''.new''),
                                 mvCmd (path @ ''.new'') path, rmCmd (path @ ''.new'')}"
    using afterChecks_calls[OF checked(8)] by blast
  have "executed s s' = pre @ [(listCmd, p', w')] @ rest"
    using rest(1) checked(2) by (simp add: executed_append)
  moreover have "(listCmd, p, w) \<notin> set pre" using checked(1) by auto
  moreover have "(listCmd, p, w) \<notin> set rest" using rest(2) by (auto simp: image_subset_iff)
  ultimately have "p = p' \<and> w = w'" using inlog by auto
  then show ?thesis using that[of pre path s3] checked by blast
qed

lemma changeCPUCount_cases:
  assumes "changeCPUCount E vm n s = (r, s')"
  shows "\<exists>p1 w1. exec E (cpuMaxCmd vm n) (world s) = (p1, w1) \<and>
           (case err p1 of
              Some e \<Rightarrow> executed s s' = [(cpuMaxCmd vm n, p1, w1)] \<and>
                r = Some (''failed to set maximum CPU count: '' @ e)
            | None \<Rightarrow>
                (\<exists>p2 w2. exec E (cpuCurrentCmd vm n) w1 = (p2, w2) \<and>
                   executed s s' = [(cpuMaxCmd vm n, p1, w1), (cpuCurrentCmd vm n, p2, w2)] \<and>
                   r = (case err p2 of None \<Rightarrow> None
                        | Some e \<Rightarrow> Some (''failed to set current CPU count: '' @ e))))"
proof -
  obtain p1 w1 where x1: "exec E (cpuMaxCmd vm n) (world s) = (p1, w1)" by force
  obtain p2 w2 where x2: "exec E (cpuCurrentCmd vm n) w1 = (p2, w2)" by force
  show ?thesis
    using assms x1 x2
    by (auto simp: changeCPUCount_def Cmd_run executed_append split: option.splits)
qed

lemma changeMemorySize_cases:
  assumes "changeMemorySize E vm sz s = (r, s')"
  shows "\<exists>p1 w1. exec E (memMaxCmd vm sz) (world s) = (p1, w1) \<and>
           (case err p1 of
              Some e \<Rightarrow> executed s s' = [(memMaxCmd vm sz, p1, w1)] \<and>
                r = Some (''failed to set maximum memory: '' @ e @ '', output: '' @ combined p1)
            | None \<Rightarrow>
                (\<exists>p2 w2. exec E (memCurrentCmd vm sz) w1 = (p2, w2) \<and>
                   executed s s' = [(memMaxCmd vm sz, p1, w1), (memCurrentCmd vm sz, p2, w2)] \<and>
                   r = (case err p2 of None \<Rightarrow> None
                        | Some e \<Rightarrow> Some (''failed to set current memory: '' @ e @ '', output: '' @ combined p2))))"
proof -
  obtain p1 w1 where x1: "exec E (memMaxCmd vm sz) (world s) = (p1, w1)" by force
  obtain p2 w2 where x2: "exec E (memCurrentCmd vm sz) w1 = (p2, w2)" by force
  show ?thesis
    using assms x1 x2
    by (auto simp: changeMemorySize_def Cmd_run executed_append split: option.splits)
qed

lemmas eval =
  init_def executed_def cmds_def run_def Cmd_Output_def Cmd_CombinedOutput_def Cmd_Run_def print_def
  eprint_def nl_def sq_def itoa_def digits.simps digit_def fs_env_def fs_exec_def fs_effect_def ok_def
  failed_def cpuMaxCmd_def cpuCurrentCmd_def memMaxCmd_def memCurrentCmd_def changeCPUCount_def
  changeMemorySize_def

lemmas eval_disk =
  resizeAndExpandDisk_def createCmd_def resizeCmd_def rmCmd_def mvCmd_def Let_def

lemma fs_effect_pipeline:
  "fs_effect (createCmd n sz) a f = (if err (res a) = None then f(n \<mapsto> written a) else f(n := leftover a))"
  "fs_effect (resizeCmd d k i n) a f = (if err (res a) = None then f(n \<mapsto> written a) else f(n := leftover a))"
  "fs_effect (rmCmd n) a f = (if err (res a) = None then f(n := None) else f)"
  "fs_effect (mvCmd n i) a f = (if err (res a) = None then f(i := f n, n := None) else f)"
  by (simp_all add: fs_effect_def createCmd_def resizeCmd_def rmCmd_def mvCmd_def)

lemma notListed_iff: "notListed vms vm \<longleftrightarrow> vm \<notin> set vms"
  by (induction vms) auto

lemma refused_as_running:
  assumes run: "runDiskCommand E F vm s = (x, s')"
    and inlog: "(listCmd, p, w) \<in> set (executed s s')"
    and no: "\<not> (err p = None \<and> notListed (Split_nl (TrimSpace (out p))) vm)"
  shows "x = Exit 1 \<and>
         stderr s' = stderr s @ [''VM '' @ sq @ vm @ sq
           @ '' is currently running. Please stop the VM before making changes.'' @ nl] \<and>
         set (cmds s s') \<subseteq> {dumpxmlCmd vm, listCmd}"
  using run inlog
proof (cases rule: runDisk_checked)
  case (1 pre path s3)
  from 1(8) show ?thesis
  proof (cases rule: afterChecks_cases)
    case running
    then have "executed s s' = pre @ [(listCmd, p, w)]" using 1(2) by (simp add: executed_append)
    then show ?thesis using running 1(1,5) by (auto simp: cmds_def)
  qed (use no in simp_all)
qed

lemmas eval_run =
  runDiskCommand_def getVMDisks_def isVMStopped_def listCmd_def dumpxmlCmd_def expand_vm1_def
  printResizeCommand_def TrimSpace_def trimStart.simps spaceRunes_def ToLower_def lowerChar_def
  disk0_def

lemma lib_fields [simp]:
  "fst (virsh_GetVMDiskPaths L vm s) = fst (lib_GetVMDiskPaths L vm (world s))"
  "libcalls (snd (virsh_GetVMDiskPaths L vm s)) =
     libcalls s @ [(GetVMDiskPaths vm, Paths (fst (lib_GetVMDiskPaths L vm (world s))))]"
  "stdout (snd (virsh_GetVMDiskPaths L vm s)) = stdout s"
  "stderr (snd (virsh_GetVMDiskPaths L vm s)) = stderr s"
  "stdin (snd (virsh_GetVMDiskPaths L vm s)) = stdin s"
  "fst (vm_IsRunning L vm s) = fst (lib_IsRunning L vm (world s))"
  "libcalls (snd (vm_IsRunning L vm s)) =
     libcalls s @ [(IsRunning vm, Flag (fst (lib_IsRunning L vm (world s))))]"
  "stdout (snd (vm_IsRunning L vm s)) = stdout s"
  "stderr (snd (vm_IsRunning L vm s)) = stderr s"
  "stdin (snd (vm_IsRunning L vm s)) = stdin s"
  "fst (vm_VerifyDiskBelongsToVM L vm p s) = fst (lib_VerifyDiskBelongsToVM L vm p (world s))"
  "libcalls (snd (vm_VerifyDiskBelongsToVM L vm p s)) =
     libcalls s @ [(VerifyDiskBelongsToVM vm p, Flag (fst (lib_VerifyDiskBelongsToVM L vm p (world s))))]"
  "stdout (snd (vm_VerifyDiskBelongsToVM L vm p s)) = stdout s"
  "stderr (snd (vm_VerifyDiskBelongsToVM L vm p s)) = stderr s"
  "stdin (snd (vm_VerifyDiskBelongsToVM L vm p s)) = stdin s"
  "fst (disk_ResizeAndExpandDisk L p dev part sz s) = fst (lib_ResizeAndExpandDisk L p dev part sz (world s))"
  "libcalls (snd (disk_ResizeAndExpandDisk L p dev part sz s)) =
     libcalls s @ [(ResizeAndExpandDisk p dev part sz, Done (fst (lib_ResizeAndExpandDisk L p dev part sz (world s))))]"
  "stdout (snd (disk_ResizeAndExpandDisk L p dev part sz s)) = stdout s"
  "stderr (snd (disk_ResizeAndExpandDisk L p dev part sz s)) = stderr s"
  "stdin (snd (disk_ResizeAndExpandDisk L p dev part sz s)) = stdin s"
  by (simp_all add: virsh_GetVMDiskPaths_def vm_IsRunning_def vm_VerifyDiskBelongsToVM_def
      disk_ResizeAndExpandDisk_def split: prod.splits)

lemma libexecuted_append: "libcalls s' = libcalls s @ xs \<Longrightarrow> libexecuted s s' = xs"
  by (simp add: libexecuted_def)

lemma afterSelect_log:
  assumes "afterSelect L F vm path s1 = (x, s')"
  shows "(\<exists>r. libcalls s' = libcalls s1 @ [(IsRunning vm, Flag r)])
       \<or> (\<exists>r. r \<noteq> Inr True \<and> x = Exit 1 \<and>
             libcalls s' = libcalls s1 @ [(IsRunning vm, Flag (Inr False)), (VerifyDiskBelongsToVM vm path, Flag r)] \<and>
             (r = Inr False \<longrightarrow>
                stderr s' = stderr s1 @ [''The specified disk does not belong to VM '' @ sq @ vm @ sq @ nl]))
       \<or> (\<exists>r. libcalls s' = libcalls s1 @ [(IsRunning vm, Flag (Inr False)),
               (VerifyDiskBelongsToVM vm path, Flag (Inr True)),
               (ResizeAndExpandDisk path (device_flag F) (partition_flag F) (size_flag F), Done r)])"
  using assms
  by (auto simp: afterSelect_def Let_def case_prod_beta split: sum.splits if_splits option.splits)

lemma runDisk_lib_log:
  assumes run: "runDiskCommand_lib L F vm s = (x, s')"
  shows "\<exists>pre path. (pre = [] \<or> (\<exists>r. pre = [(GetVMDiskPaths vm, Paths r)])) \<and>
     (libexecuted s s' = pre
       \<or> (\<exists>r. libexecuted s s' = pre @ [(IsRunning vm, Flag r)])
       \<or> (\<exists>r. r \<noteq> Inr True \<and> x = Exit 1 \<and>
             libexecuted s s' = pre @ [(IsRunning vm, Flag (Inr False)), (VerifyDiskBelongsToVM vm path, Flag r)] \<and>
             (r = Inr False \<longrightarrow>
                stderr s' = stderr s @ [''The specified disk does not belong to VM '' @ sq @ vm @ sq @ nl]))
       \<or> (\<exists>r. libexecuted s s' = pre @ [(IsRunning vm, Flag (Inr False)),
               (VerifyDiskBelongsToVM vm path, Flag (Inr True)),
               (ResizeAndExpandDisk path (device_flag F) (partition_flag F) (size_flag F), Done r)]))"
proof -
  let ?P = "\<lambda>pre path. (pre = [] \<or> (\<exists>r. pre = [(GetVMDiskPaths vm, Paths r)])) \<and>
     (libexecuted s s' = pre
       \<or> (\<exists>r. libexecuted s s' = pre @ [(IsRunning vm, Flag r)])
       \<or> (\<exists>r. r \<noteq> Inr True \<and> x = Exit 1 \<and>
             libexecuted s s' = pre @ [(IsRunning vm, Flag (Inr False)), (VerifyDiskBelongsToVM vm path, Flag r)] \<and>
             (r = Inr False \<longrightarrow>
                stderr s' = stderr s @ [''The specified disk does not belong to VM '' @ sq @ vm @ sq @ nl]))
       \<or> (\<exists>r. libexecuted s s' = pre @ [(IsRunning vm, Flag (Inr False)),
               (VerifyDiskBelongsToVM vm path, Flag (Inr True)),
               (ResizeAndExpandDisk path (device_flag F) (partition_flag F) (size_flag F), Done r)]))"
  show ?thesis
  proof (cases "imagePath_flag F = []")
    case False
    then have "afterSelect L F vm (imagePath_flag F) s = (x, s')"
      using run by (simp add: runDiskCommand_lib_def afterSelect_def)
    from afterSelect_log[OF this] have "?P [] (imagePath_flag F)"
      by (auto simp: libexecuted_append)
    then show ?thesis by blast
  next
    case True
    let ?s1 = "snd (virsh_GetVMDiskPaths L vm s)"
    let ?r = "fst (lib_GetVMDiskPaths L vm (world s))"
    show ?thesis
    proof (cases "\<exists>d ds. ?r = Inr (d # ds)")
      case sel: True
      then obtain d ds where d: "?r = Inr (d # ds)" by blast
      then have "afterSelect L F vm d ?s1 = (x, s')"
        using run True by (simp add: runDiskCommand_lib_def afterSelect_def case_prod_beta)
      from afterSelect_log[OF this] have "?P [(GetVMDiskPaths vm, Paths ?r)] d"
        by (auto simp: libexecuted_append)
      then show ?thesis by blast
    next
      case False
      then have "libcalls s' = libcalls ?s1"
        using run True
        by (auto simp: runDiskCommand_lib_def case_prod_beta split: sum.splits list.splits)
      then have "?P [(GetVMDiskPaths vm, Paths ?r)] []"
        by (auto simp: libexecuted_append)
      then show ?thesis by blast
    qed
  qed
qed

lemma in_executed:
  "i < length xs \<Longrightarrow> fst (xs ! i) = c \<Longrightarrow> (c, fst (snd (xs ! i)), snd (snd (xs ! i))) \<in> set xs"
  by (metis nth_mem prod.collapse)

lemma fs_effect_query:
  "fs_effect listCmd a f = f" "fs_effect (dumpxmlCmd vm) a f = f"
  by (simp_all add: fs_effect_def listCmd_def dumpxmlCmd_def)

section \<open>The claims\<close>

text \<open>
  C9. \<^verbatim>\<open>changeCPUCount\<close> and \<^verbatim>\<open>changeMemorySize\<close> run the maximum command first, in the
  world as they find it. When it fails nothing else is executed and the error names the
  maximum call. Otherwise the current command runs next, in the world the first one left,
  and is the last command; when it fails the error names the current call.
\<close>

theorem mutators_maximum_then_current:
  assumes "changeCPUCount E vm n s = (r, s')"
    and "changeMemorySize E vm sz t = (r', t')"
  shows "(\<exists>p1 w1. exec E (cpuMaxCmd vm n) (world s) = (p1, w1) \<and>
           (case err p1 of
              Some e \<Rightarrow> executed s s' = [(cpuMaxCmd vm n, p1, w1)] \<and>
                r = Some (''failed to set maximum CPU count: '' @ e)
            | None \<Rightarrow>
                (\<exists>p2 w2. exec E (cpuCurrentCmd vm n) w1 = (p2, w2) \<and>
                   executed s s' = [(cpuMaxCmd vm n, p1, w1), (cpuCurrentCmd vm n, p2, w2)] \<and>
                   r = (case err p2 of None \<Rightarrow> None
                        | Some e \<Rightarrow> Some (''failed to set current CPU count: '' @ e))))) \<and>
         (\<exists>p1 w1. exec E (memMaxCmd vm sz) (world t) = (p1, w1) \<and>
           (case err p1 of
              Some e \<Rightarrow> executed t t' = [(memMaxCmd vm sz, p1, w1)] \<and>
                r' = Some (''failed to set maximum memory: '' @ e @ '', output: '' @ combined p1)
            | None \<Rightarrow>
                (\<exists>p2 w2. exec E (memCurrentCmd vm sz) w1 = (p2, w2) \<and>
                   executed t t' = [(memMaxCmd vm sz, p1, w1), (memCurrentCmd vm sz, p2, w2)] \<and>
                   r' = (case err p2 of None \<Rightarrow> None
                         | Some e \<Rightarrow> Some (''failed to set current memory: '' @ e @ '', output: '' @ combined p2)))))"
  using changeCPUCount_cases[OF assms(1)] changeMemorySize_cases[OF assms(2)] by blast

theorem mutators_maximum_then_current_witness:
  "map fst (executed (init Map.empty []) (snd (changeCPUCount (fs_env current_fails) ''vm1'' 4 (init Map.empty []))))
     = [[''sudo'', ''virsh'', ''setvcpus'', ''vm1'', ''4'', ''--config'', ''--maximum''],
        [''sudo'', ''virsh'', ''setvcpus'', ''vm1'', ''4'', ''--config'']] \<and>
   fst (changeCPUCount (fs_env current_fails) ''vm1'' 4 (init Map.empty []))
     = Some ''failed to set current CPU count: exit status 1'' \<and>
   map fst (executed (init Map.empty []) (snd (changeMemorySize (fs_env current_fails) ''vm1'' ''8G'' (init Map.empty []))))
     = [[''sudo'', ''virsh'', ''setmaxmem'', ''vm1'', ''8G'', ''--config''],
        [''sudo'', ''virsh'', ''setmem'', ''vm1'', ''8G'', ''--config'']] \<and>
   fst (changeMemorySize (fs_env current_fails) ''vm1'' ''8G'' (init Map.empty []))
     = Some ''failed to set current memory: exit status 1, output: error: domain is busy''"
  using mutators_maximum_then_current[of "fs_env current_fails" "''vm1''" 4 "init Map.empty []"
      "fst (changeCPUCount (fs_env current_fails) ''vm1'' 4 (init Map.empty []))"
      "snd (changeCPUCount (fs_env current_fails) ''vm1'' 4 (init Map.empty []))"
      "''8G''" "init Map.empty []"
      "fst (changeMemorySize (fs_env current_fails) ''vm1'' ''8G'' (init Map.empty []))"
      "snd (changeMemorySize (fs_env current_fails) ''vm1'' ''8G'' (init Map.empty []))"]
  by (simp add: eval current_fails_def)



lemma rollback_after_failed_step:
  assumes run: "resizeAndExpandDisk E img dev part sz s = (r, s')"
    and inlog: "(c, p, w) \<in> set (executed s s')"
    and step: "c = resizeCmd dev part img (img @ ''.new'') \<or> c = mvCmd (img @ ''.new'') img"
    and fails: "err p = Some e"
  shows "\<exists>p' w' msg. exec E (rmCmd (img @ ''.new'')) w = (p', w') \<and>
           last (executed s s') = (rmCmd (img @ ''.new''), p', w') \<and>
           r = Some msg \<and> sublist e msg \<and>
           (c = resizeCmd dev part img (img @ ''.new'') \<longrightarrow> sublist (combined p) msg) \<and>
           (case err p' of
              None \<Rightarrow> sublist ''New image was removed.'' msg
            | Some e' \<Rightarrow> sublist e' msg \<and> sublist (combined p') msg)"
  using run
proof (cases rule: resize_cases)
  case (create_failed p1 w1 e1)
  then have "executed s s' = [(createCmd (img @ ''.new'') sz, p1, w1)]" by (simp add: executed_append)
  then show ?thesis using inlog step by auto
next
  case (resize_failed p1 w1 p2 w2 p3 w3 e2)
  then have ex: "executed s s' = [(createCmd (img @ ''.new'') sz, p1, w1),
      (resizeCmd dev part img (img @ ''.new''), p2, w2), (rmCmd (img @ ''.new''), p3, w3)]"
    by (simp add: executed_append)
  then have same: "c = resizeCmd dev part img (img @ ''.new'') \<and> p = p2 \<and> w = w2" using inlog step by auto
  then have ee: "e2 = e" using fails resize_failed(4) by simp
  let ?head = "''virt-resize failed: '' @ e @ '', output: '' @ combined p2"
  show ?thesis
  proof (cases "err p3")
    case None
    then have msg: "r = Some (''virt-resize failed: '' @ e @ '', output: '' @ combined p2 @ ''. New image was removed.'')"
      using resize_failed(8) ee by simp
    have "sublist e (''virt-resize failed: '' @ e @ ('', output: '' @ combined p2 @ ''. New image was removed.''))"
      by (rule sublist_appendI)
    moreover have "sublist (combined p2) ((''virt-resize failed: '' @ e @ '', output: '') @ combined p2 @ ''. New image was removed.'')"
      by (rule sublist_appendI)
    moreover have "sublist ''New image was removed.'' ((''virt-resize failed: '' @ e @ '', output: '' @ combined p2 @ ''. '') @ ''New image was removed.'' @ [])"
      by (rule sublist_appendI)
    ultimately show ?thesis using msg ex same None resize_failed(5) by simp
  next
    case (Some e')
    then have msg: "r = Some (''virt-resize failed: '' @ e @ '', output: '' @ combined p2 @
        ''. Additionally, failed to remove new image: '' @ e' @ '', output: '' @ combined p3)"
      using resize_failed(8) ee by simp
    have "sublist e (''virt-resize failed: '' @ e @ ('', output: '' @ combined p2 @
        ''. Additionally, failed to remove new image: '' @ e' @ '', output: '' @ combined p3))"
      by (rule sublist_appendI)
    moreover have "sublist (combined p2) ((''virt-resize failed: '' @ e @ '', output: '') @ combined p2 @
        (''. Additionally, failed to remove new image: '' @ e' @ '', output: '' @ combined p3))"
      by (rule sublist_appendI)
    moreover have "sublist e' ((''virt-resize failed: '' @ e @ '', output: '' @ combined p2 @
        ''. Additionally, failed to remove new image: '') @ e' @ ('', output: '' @ combined p3))"
      by (rule sublist_appendI)
    moreover have "sublist (combined p3) ((''virt-resize failed: '' @ e @ '', output: '' @ combined p2 @
        ''. Additionally, failed to remove new image: '' @ e' @ '', output: '') @ combined p3 @ [])"
      by (rule sublist_appendI)
    ultimately show ?thesis using msg ex same Some resize_failed(5) by simp
  qed
next
  case (replace_failed p1 w1 p2 w2 p3 w3 p4 w4 e3)
  then have ex: "executed s s' = [(createCmd (img @ ''.new'') sz, p1, w1),
      (resizeCmd dev part img (img @ ''.new''), p2, w2), (mvCmd (img @ ''.new'') img, p3, w3),
      (rmCmd (img @ ''.new''), p4, w4)]"
    by (simp add: executed_append)
  then have same: "c = mvCmd (img @ ''.new'') img \<and> p = p3 \<and> w = w3"
    using inlog step fails replace_failed(4) by auto
  then have ee: "e3 = e" using fails replace_failed(6) by simp
  show ?thesis
  proof (cases "err p4")
    case None
    then have msg: "r = Some (''failed to replace original image: '' @ e @ ''. New image was removed.'')"
      using replace_failed(10) ee by simp
    have "sublist e (''failed to replace original image: '' @ e @ ''. New image was removed.'')"
      by (rule sublist_appendI)
    moreover have "sublist ''New image was removed.'' ((''failed to replace original image: '' @ e @ ''. '') @ ''New image was removed.'' @ [])"
      by (rule sublist_appendI)
    ultimately show ?thesis using msg ex same None replace_failed(7) by simp
  next
    case (Some e')
    then have msg: "r = Some (''failed to replace original image: '' @ e @
        ''. Additionally, failed to remove new image: '' @ e' @ '', output: '' @ combined p4)"
      using replace_failed(10) ee by simp
    have "sublist e (''failed to replace original image: '' @ e @
        (''. Additionally, failed to remove new image: '' @ e' @ '', output: '' @ combined p4))"
      by (rule sublist_appendI)
    moreover have "sublist e' ((''failed to replace original image: '' @ e @
        ''. Additionally, failed to remove new image: '') @ e' @ ('', output: '' @ combined p4))"
      by (rule sublist_appendI)
    moreover have "sublist (combined p4) ((''failed to replace original image: '' @ e @
        ''. Additionally, failed to remove new image: '' @ e' @ '', output: '') @ combined p4 @ [])"
      by (rule sublist_appendI)
    ultimately show ?thesis using msg ex same Some replace_failed(7) by simp
  qed
next
  case (replaced p1 w1 p2 w2 p3 w3)
  then have "executed s s' = [(createCmd (img @ ''.new'') sz, p1, w1),
      (resizeCmd dev part img (img @ ''.new''), p2, w2), (mvCmd (img @ ''.new'') img, p3, w3)]"
    by (simp add: executed_append)
  then show ?thesis using inlog step fails replaced by auto
qed

text \<open>
  C3. When the migrate command \<^verbatim>\<open>sudo virt-resize --expand /dev/<device><partition>
  <imagePath> <imagePath>.new\<close> or the replace command \<^verbatim>\<open>sudo mv <imagePath>.new
  <imagePath>\<close> is executed and fails, the command \<^verbatim>\<open>sudo rm <imagePath>.new\<close>, with the
  artifact path as its one operand, is executed next, in the world the failed step left, and
  is the last command. An error is returned that contains the diagnostic of the failed step
  (for migrate, its captured output too). When the removal succeeds the error says that the
  new image was removed; when the removal fails as well the error also contains the
  removal's error and output.
\<close>

theorem failed_step_rolls_back:
  assumes run: "resizeAndExpandDisk E img dev part sz s = (r, s')"
    and inlog: "(c, p, w) \<in> set (executed s s')"
    and step: "c = [''sudo'', ''virt-resize'', ''--expand'', ''/dev/'' @ dev @ itoa part, img, img @ ''.new'']
               \<or> c = [''sudo'', ''mv'', img @ ''.new'', img]"
    and fails: "err p = Some e"
  shows "\<exists>p' w' msg. exec E [''sudo'', ''rm'', img @ ''.new''] w = (p', w') \<and>
           last (executed s s') = ([''sudo'', ''rm'', img @ ''.new''], p', w') \<and>
           r = Some msg \<and> sublist e msg \<and>
           (c = [''sudo'', ''virt-resize'', ''--expand'', ''/dev/'' @ dev @ itoa part, img, img @ ''.new'']
              \<longrightarrow> sublist (combined p) msg) \<and>
           (case err p' of
              None \<Rightarrow> sublist ''New image was removed.'' msg
            | Some e' \<Rightarrow> sublist e' msg \<and> sublist (combined p') msg)"
proof -
  have step': "c = resizeCmd dev part img (img @ ''.new'') \<or> c = mvCmd (img @ ''.new'') img"
    using step by (simp add: resizeCmd_def mvCmd_def)
  have rm: "rmCmd (img @ ''.new'') = [''sudo'', ''rm'', img @ ''.new'']"
    by (simp add: rmCmd_def)
  have rs: "resizeCmd dev part img (img @ ''.new'')
              = [''sudo'', ''virt-resize'', ''--expand'', ''/dev/'' @ dev @ itoa part, img, img @ ''.new'']"
    by (simp add: resizeCmd_def)
  show ?thesis
    using rollback_after_failed_step[OF run inlog step' fails] unfolding rm rs .
qed

theorem failed_step_rolls_back_witness:
  "fst (resizeAndExpandDisk (fs_env resize_and_rm_fail) ''/data/vm1.img'' ''vda'' 1 ''40G'' (init disk0 []))
     = Some (''virt-resize failed: exit status 1, output: virt-resize: no space left. ''
          @ ''Additionally, failed to remove new image: exit status 2, output: rm: permission denied'') \<and>
   map fst (executed (init disk0 [])
      (snd (resizeAndExpandDisk (fs_env resize_and_rm_fail) ''/data/vm1.img'' ''vda'' 1 ''40G'' (init disk0 []))))
     = [[''sudo'', ''qemu-img'', ''create'', ''-f'', ''qcow2'', ''-o'', ''preallocation=metadata'',
         ''/data/vm1.img.new'', ''40G''],
        [''sudo'', ''virt-resize'', ''--expand'', ''/dev/vda1'', ''/data/vm1.img'', ''/data/vm1.img.new''],
        [''sudo'', ''rm'', ''/data/vm1.img.new'']] \<and>
   fst (last (executed (init disk0 [])
      (snd (resizeAndExpandDisk (fs_env resize_and_rm_fail) ''/data/vm1.img'' ''vda'' 1 ''40G'' (init disk0 [])))))
     = [''sudo'', ''rm'', ''/data/vm1.img.new'']"
proof -
  let ?R = "resizeAndExpandDisk (fs_env resize_and_rm_fail) ''/data/vm1.img'' ''vda'' 1 ''40G'' (init disk0 [])"
  let ?ex = "executed (init disk0 []) (snd ?R)"
  let ?c = "[''sudo'', ''virt-resize'', ''--expand'', ''/dev/vda1'', ''/data/vm1.img'', ''/data/vm1.img.new'']"
  have h1: "?R = (fst ?R, snd ?R)" by simp
  have h2: "(?c, fst (snd (?ex ! 1)), snd (snd (?ex ! 1))) \<in> set ?ex"
    by (rule in_executed) code_simp+
  have h3: "?c = [''sudo'', ''virt-resize'', ''--expand'', ''/dev/'' @ ''vda'' @ itoa 1, ''/data/vm1.img'',
                  ''/data/vm1.img'' @ ''.new'']
            \<or> ?c = [''sudo'', ''mv'', ''/data/vm1.img'' @ ''.new'', ''/data/vm1.img'']"
    by code_simp
  have h4: "err (fst (snd (?ex ! 1))) = Some ''exit status 1''" by code_simp
  obtain p' w' msg where
    "last ?ex = ([''sudo'', ''rm'', ''/data/vm1.img'' @ ''.new''], p', w')" "fst ?R = Some msg"
    using failed_step_rolls_back[OF h1 h2 h3 h4] by auto
  then have "fst (last ?ex) = [''sudo'', ''rm'', ''/data/vm1.img.new'']" by simp
  moreover have "fst ?R
     = Some (''virt-resize failed: exit status 1, output: virt-resize: no space left. ''
          @ ''Additionally, failed to remove new image: exit status 2, output: rm: permission denied'') \<and>
     map fst ?ex
     = [[''sudo'', ''qemu-img'', ''create'', ''-f'', ''qcow2'', ''-o'', ''preallocation=metadata'',
         ''/data/vm1.img.new'', ''40G''],
        [''sudo'', ''virt-resize'', ''--expand'', ''/dev/vda1'', ''/data/vm1.img'', ''/data/vm1.img.new''],
        [''sudo'', ''rm'', ''/data/vm1.img.new'']]"
    by code_simp
  ultimately show ?thesis by simp
qed

text \<open>
  C1. In the world of files: after every command executed before the replace command the
  original path holds what it held at the start; every \<^verbatim>\<open>rm\<close> executed removes exactly
  \<open>imagePath + ".new"\<close>; the replace command is executed only as the third command, right
  after a migrate command that returned without error; and when the pipeline returns no
  error the artifact path is gone and the original path holds what the migrate tool wrote.
\<close>

theorem original_kept_until_migrated:
  assumes fs: "exec E = fs_exec oracle"
    and run: "resizeAndExpandDisk E img dev part sz s = (r, s')"
  shows "(\<forall>e \<in> set (takeWhile (\<lambda>e. fst e \<noteq> mvCmd (img @ ''.new'') img) (executed s s')).
            snd (snd e) img = world s img) \<and>
         (\<forall>c \<in> set (cmds s s'). take 2 c = [''sudo'', ''rm''] \<longrightarrow> c = [''sudo'', ''rm'', img @ ''.new'']) \<and>
         (\<forall>i < length (executed s s'). fst (executed s s' ! i) = mvCmd (img @ ''.new'') img \<longrightarrow>
            i = 2 \<and> fst (executed s s' ! 1) = resizeCmd dev part img (img @ ''.new'') \<and>
            err (fst (snd (executed s s' ! 1))) = None) \<and>
         (r = None \<longrightarrow>
            world s' (img @ ''.new'') = None \<and>
            world s' img = Some (written (oracle (resizeCmd dev part img (img @ ''.new'')))))"
  using run
proof (cases rule: resize_cases)
  case (create_failed p1 w1 e)
  then have ex: "executed s s' = [(createCmd (img @ ''.new'') sz, p1, w1)]" by (simp add: executed_append)
  have "w1 img = world s img"
    using create_failed(1) by (auto simp: fs fs_exec_def fs_effect_pipeline)
  then show ?thesis using ex create_failed(5)
    by (simp add: cmds_def) (simp_all add: createCmd_def)
next
  case (resize_failed p1 w1 p2 w2 p3 w3 e)
  then have ex: "executed s s' = [(createCmd (img @ ''.new'') sz, p1, w1),
      (resizeCmd dev part img (img @ ''.new''), p2, w2), (rmCmd (img @ ''.new''), p3, w3)]"
    by (simp add: executed_append)
  have "w1 img = world s img" "w2 img = world s img" "w3 img = world s img"
    using resize_failed(1,3,5) by (auto simp: fs fs_exec_def fs_effect_pipeline)
  then show ?thesis using ex resize_failed(8)
    by (simp add: cmds_def nth_Cons' less_Suc_eq) (simp_all add: createCmd_def resizeCmd_def rmCmd_def)
next
  case (replace_failed p1 w1 p2 w2 p3 w3 p4 w4 e)
  then have ex: "executed s s' = [(createCmd (img @ ''.new'') sz, p1, w1),
      (resizeCmd dev part img (img @ ''.new''), p2, w2), (mvCmd (img @ ''.new'') img, p3, w3),
      (rmCmd (img @ ''.new''), p4, w4)]"
    by (simp add: executed_append)
  have "w1 img = world s img" "w2 img = world s img"
    using replace_failed(1,3) by (auto simp: fs fs_exec_def fs_effect_pipeline)
  then show ?thesis using ex replace_failed(4,10)
    by (simp add: cmds_def nth_Cons' less_Suc_eq) (simp_all add: createCmd_def resizeCmd_def rmCmd_def mvCmd_def)
next
  case (replaced p1 w1 p2 w2 p3 w3)
  then have ex: "executed s s' = [(createCmd (img @ ''.new'') sz, p1, w1),
      (resizeCmd dev part img (img @ ''.new''), p2, w2), (mvCmd (img @ ''.new'') img, p3, w3)]"
    by (simp add: executed_append)
  have "w1 img = world s img" "w2 img = world s img"
    using replaced(1,3) by (auto simp: fs fs_exec_def fs_effect_pipeline)
  moreover have "w3 (img @ ''.new'') = None \<and>
      w3 img = Some (written (oracle (resizeCmd dev part img (img @ ''.new''))))"
    using replaced(3,4,5,6) by (auto simp: fs fs_exec_def fs_effect_pipeline)
  ultimately show ?thesis using ex replaced(4,8)
    by (simp add: cmds_def nth_Cons' less_Suc_eq) (simp_all add: createCmd_def resizeCmd_def rmCmd_def mvCmd_def)
qed

theorem original_kept_until_migrated_witness:
  "exec (fs_env all_ok) = fs_exec all_ok \<and>
   fst (resizeAndExpandDisk (fs_env all_ok) ''/data/vm1.img'' ''vda'' 1 ''40G'' (init disk0 [])) = None \<and>
   world (snd (resizeAndExpandDisk (fs_env all_ok) ''/data/vm1.img'' ''vda'' 1 ''40G'' (init disk0 [])))
     ''/data/vm1.img.new'' = None \<and>
   world (snd (resizeAndExpandDisk (fs_env all_ok) ''/data/vm1.img'' ''vda'' 1 ''40G'' (init disk0 [])))
     ''/data/vm1.img'' = Some ''resized image''"
proof -
  let ?R = "resizeAndExpandDisk (fs_env all_ok) ''/data/vm1.img'' ''vda'' 1 ''40G'' (init disk0 [])"
  have h1: "exec (fs_env all_ok) = fs_exec all_ok" by (simp add: fs_env_def)
  have h2: "?R = (fst ?R, snd ?R)" by simp
  have ok: "fst ?R = None" by (simp add: eval eval_disk all_ok_def disk0_def)
  show ?thesis
    using original_kept_until_migrated[OF h1 h2] h1 ok
    by (simp add: all_ok_def resizeCmd_def)
qed

text \<open>
  C2. When the query for the running VMs was executed, answered without error, and its
  answer lists the VM name, \<^verbatim>\<open>runDiskCommand\<close> exits with status 1 after writing the
  "is currently running" message to standard error, and the only commands executed are
  the queries \<^verbatim>\<open>virsh dumpxml\<close> and \<^verbatim>\<open>virsh list\<close>: none of create, migrate, replace or
  remove.
\<close>

theorem running_vm_is_refused:
  assumes "runDiskCommand E F vm s = (x, s')"
    and "(listCmd, p, w) \<in> set (executed s s')"
    and "err p = None"
    and "vm \<in> set (Split_nl (TrimSpace (out p)))"
  shows "x = Exit 1 \<and>
         stderr s' = stderr s @ [''VM '' @ sq @ vm @ sq
           @ '' is currently running. Please stop the VM before making changes.'' @ nl] \<and>
         set (cmds s s') \<subseteq> {dumpxmlCmd vm, listCmd}"
  using refused_as_running[OF assms(1,2)] assms(4) by (simp add: notListed_iff)

theorem running_vm_is_refused_witness:
  "fst (runDiskCommand (fs_env vm1_running) expand_vm1 ''vm1'' (init disk0 ''y'')) = Exit 1 \<and>
   stderr (snd (runDiskCommand (fs_env vm1_running) expand_vm1 ''vm1'' (init disk0 ''y'')))
     = [''VM '' @ sq @ ''vm1'' @ sq @ '' is currently running. Please stop the VM before making changes.'' @ nl] \<and>
   cmds (init disk0 ''y'') (snd (runDiskCommand (fs_env vm1_running) expand_vm1 ''vm1'' (init disk0 ''y'')))
     = [listCmd]"
proof -
  let ?R = "runDiskCommand (fs_env vm1_running) expand_vm1 ''vm1'' (init disk0 ''y'')"
  let ?p = "\<lparr>err = None, out = ''web'' @ nl @ ''vm1'' @ nl @ nl, combined = []\<rparr>"
  have h1: "?R = (fst ?R, snd ?R)" by simp
  have h2: "(listCmd, ?p, disk0) \<in> set (executed (init disk0 ''y'') (snd ?R))"
    by (simp add: eval eval_run vm1_running_def cong: prod.case_cong_weak)
  have h3: "err ?p = None" by simp
  have h4: "''vm1'' \<in> set (Split_nl (TrimSpace (out ?p)))"
    by (simp add: eval eval_run)
  show ?thesis
    using running_vm_is_refused[OF h1 h2 h3 h4]
    by (simp add: eval eval_run vm1_running_def cong: prod.case_cong_weak)
qed

text \<open>
  C10. When the query for the running VMs fails, \<^verbatim>\<open>isVMStopped\<close> returns false whatever
  the VM name, and \<^verbatim>\<open>runDiskCommand\<close> ends as it does for a running VM: status 1, the same
  "is currently running" message, and no pipeline command executed.
\<close>

theorem failed_query_counts_as_running:
  assumes "runDiskCommand E F vm s = (x, s')"
    and "(listCmd, p, w) \<in> set (executed s s')"
    and "err p = Some e"
  shows "(\<forall>name t. err (fst (exec E listCmd (world t))) \<noteq> None \<longrightarrow> \<not> fst (isVMStopped E name t)) \<and>
         x = Exit 1 \<and>
         stderr s' = stderr s @ [''VM '' @ sq @ vm @ sq
           @ '' is currently running. Please stop the VM before making changes.'' @ nl] \<and>
         set (cmds s s') \<subseteq> {dumpxmlCmd vm, listCmd}"
  using refused_as_running[OF assms(1,2)] assms(3) by simp

theorem failed_query_counts_as_running_witness:
  "fst (runDiskCommand (fs_env list_fails) expand_vm1 ''vm1'' (init disk0 ''y'')) = Exit 1 \<and>
   stderr (snd (runDiskCommand (fs_env list_fails) expand_vm1 ''vm1'' (init disk0 ''y'')))
     = [''VM '' @ sq @ ''vm1'' @ sq @ '' is currently running. Please stop the VM before making changes.'' @ nl] \<and>
   cmds (init disk0 ''y'') (snd (runDiskCommand (fs_env list_fails) expand_vm1 ''vm1'' (init disk0 ''y'')))
     = [listCmd] \<and>
   \<not> fst (isVMStopped (fs_env list_fails) ''vm2'' (init disk0 []))"
proof -
  let ?R = "runDiskCommand (fs_env list_fails) expand_vm1 ''vm1'' (init disk0 ''y'')"
  let ?p = "failed ''exit status 1'' ''error: failed to connect to the hypervisor''"
  have h1: "?R = (fst ?R, snd ?R)" by simp
  have h2: "(listCmd, ?p, disk0) \<in> set (executed (init disk0 ''y'') (snd ?R))"
    by (simp add: eval eval_run list_fails_def cong: prod.case_cong_weak)
  have h3: "err ?p = Some ''exit status 1''" by (simp add: failed_def)
  have fails: "err (fst (exec (fs_env list_fails) listCmd (world (init disk0 [])))) \<noteq> None"
    by (simp add: eval list_fails_def)
  show ?thesis
    using failed_query_counts_as_running[OF h1 h2 h3] fails
    by (simp add: eval eval_run list_fails_def cong: prod.case_cong_weak)
qed

text \<open>
  C5, as amended. In the first \<^verbatim>\<open>runDiskCommand\<close> (lines 121-171), when the first line of
  standard input, trimmed and in small letters, is neither \<open>y\<close> nor \<open>yes\<close>, the only
  commands executed are the two queries: no pipeline command runs without an affirmative
  answer. When moreover the prompt is reached (the query for the running VMs answered
  without error and does not list the VM, a size is given, no dry run), the run ends with
  \<open>Exit 0\<close>, nothing is written to standard error, the world is as the query left it, and
  the last thing printed is "Operation cancelled.".
\<close>

theorem confirmation_gates_pipeline:
  assumes run: "runDiskCommand E F vm s = (x, s')"
    and no: "\<not> affirmative (stdin s)"
  shows "set (cmds s s') \<subseteq> {dumpxmlCmd vm, listCmd} \<and>
         (\<forall>p w. (listCmd, p, w) \<in> set (executed s s') \<and> err p = None \<and>
                vm \<notin> set (Split_nl (TrimSpace (out p))) \<and> size_flag F \<noteq> [] \<and> \<not> dryRun_flag F \<longrightarrow>
            x = Exit 0 \<and> exit_status x = 0 \<and> stderr s' = stderr s \<and> world s' = w \<and>
            last (stdout s') = ''Operation cancelled.'' @ nl)"
proof -
  have A: "set (cmds s s') \<subseteq> {dumpxmlCmd vm, listCmd}"
    using run
  proof (cases rule: runDisk_cases)
    case (no_disk p0 w0 e)
    then have "executed s s' = [(dumpxmlCmd vm, p0, w0)]" by (simp add: executed_append)
    then show ?thesis by (simp add: cmds_def)
  next
    case (checked pre path p w s3)
    obtain rest where rest: "calls s' = calls s3 @ rest" "rest \<noteq> [] \<longrightarrow> affirmative (stdin s3)"
      using afterChecks_calls[OF checked(8)] by blast
    then have "rest = []" using no checked(4) by auto
    then have "executed s s' = pre @ [(listCmd, p, w)]"
      using rest(1) checked(2) by (simp add: executed_append)
    then show ?thesis using checked(1) by (auto simp: cmds_def)
  qed
  have B: "x = Exit 0 \<and> exit_status x = 0 \<and> stderr s' = stderr s \<and> world s' = w \<and>
            last (stdout s') = ''Operation cancelled.'' @ nl"
    if inlog: "(listCmd, p, w) \<in> set (executed s s')" and ok: "err p = None"
      and stopped: "vm \<notin> set (Split_nl (TrimSpace (out p)))"
      and sz: "size_flag F \<noteq> []" and real: "\<not> dryRun_flag F" for p w
    using run inlog
  proof (cases rule: runDisk_checked)
    case (1 pre path s3)
    from 1(8) show ?thesis
    proof (cases rule: afterChecks_cases)
      case cancelled
      then show ?thesis using 1(3,5) by (simp add: exit_status_def)
    qed (use ok stopped sz real no 1(4) in \<open>simp_all add: notListed_iff\<close>)
  qed
  show ?thesis using A B by blast
qed

theorem confirmation_gates_pipeline_witness:
  "\<not> affirmative (''n'' @ nl) \<and> \<not> affirmative [] \<and>
   fst (runDiskCommand (fs_env all_ok) expand_vm1 ''vm1'' (init disk0 (''n'' @ nl))) = Exit 0 \<and>
   cmds (init disk0 (''n'' @ nl)) (snd (runDiskCommand (fs_env all_ok) expand_vm1 ''vm1'' (init disk0 (''n'' @ nl))))
     = [listCmd] \<and>
   stderr (snd (runDiskCommand (fs_env all_ok) expand_vm1 ''vm1'' (init disk0 (''n'' @ nl)))) = [] \<and>
   last (stdout (snd (runDiskCommand (fs_env all_ok) expand_vm1 ''vm1'' (init disk0 (''n'' @ nl)))))
     = ''Operation cancelled.'' @ nl \<and>
   fst (runDiskCommand (fs_env all_ok) expand_vm1 ''vm1'' (init disk0 [])) = Exit 0"
proof -
  let ?s = "init disk0 (''n'' @ nl)"
  let ?R = "runDiskCommand (fs_env all_ok) expand_vm1 ''vm1'' ?s"
  let ?ex = "executed ?s (snd ?R)"
  let ?t = "init disk0 []"
  let ?Q = "runDiskCommand (fs_env all_ok) expand_vm1 ''vm1'' ?t"
  let ?ey = "executed ?t (snd ?Q)"
  have h1: "?R = (fst ?R, snd ?R)" and k1: "?Q = (fst ?Q, snd ?Q)" by simp_all
  have h2: "\<not> affirmative (stdin ?s)" and k2: "\<not> affirmative (stdin ?t)" by code_simp+
  have h3: "(listCmd, fst (snd (?ex ! 0)), snd (snd (?ex ! 0))) \<in> set ?ex"
    by (rule in_executed) code_simp+
  have k3: "(listCmd, fst (snd (?ey ! 0)), snd (snd (?ey ! 0))) \<in> set ?ey"
    by (rule in_executed) code_simp+
  have h4: "err (fst (snd (?ex ! 0))) = None \<and> ''vm1'' \<notin> set (Split_nl (TrimSpace (out (fst (snd (?ex ! 0)))))) \<and>
            size_flag expand_vm1 \<noteq> [] \<and> \<not> dryRun_flag expand_vm1"
    by code_simp
  have k4: "err (fst (snd (?ey ! 0))) = None \<and> ''vm1'' \<notin> set (Split_nl (TrimSpace (out (fst (snd (?ey ! 0)))))) \<and>
            size_flag expand_vm1 \<noteq> [] \<and> \<not> dryRun_flag expand_vm1"
    by code_simp
  have "fst ?R = Exit 0 \<and> stderr (snd ?R) = stderr ?s \<and>
        last (stdout (snd ?R)) = ''Operation cancelled.'' @ nl"
    using confirmation_gates_pipeline[OF h1 h2] h3 h4 by blast
  moreover have "fst ?Q = Exit 0"
    using confirmation_gates_pipeline[OF k1 k2] k3 k4 by blast
  moreover have "cmds ?s (snd ?R) = [listCmd]" by code_simp
  moreover have "\<not> affirmative (''n'' @ nl) \<and> \<not> affirmative []" by code_simp
  moreover have "stderr ?s = []" by (simp add: init_def)
  ultimately show ?thesis by simp
qed

text \<open>
  C5 as stated fails on the second \<^verbatim>\<open>runDiskCommand\<close> (lines 400-455), which asks for
  no confirmation: with \<open>n\<close> on standard input, which is not affirmative, it calls
  \<^verbatim>\<open>disk.ResizeAndExpandDisk\<close> and leaves standard input unread.
\<close>

theorem no_confirmation_counterexample:
  "\<not> affirmative (''n'' @ nl) \<and>
   fst (runDiskCommand_lib lib_ok expand_vm1 ''vm1'' (init disk0 (''n'' @ nl))) = Returned \<and>
   map fst (libexecuted (init disk0 (''n'' @ nl))
      (snd (runDiskCommand_lib lib_ok expand_vm1 ''vm1'' (init disk0 (''n'' @ nl)))))
     = [IsRunning ''vm1'', VerifyDiskBelongsToVM ''vm1'' ''/data/vm1.img'',
        ResizeAndExpandDisk ''/data/vm1.img'' ''vda'' 1 ''40G''] \<and>
   stdin (snd (runDiskCommand_lib lib_ok expand_vm1 ''vm1'' (init disk0 (''n'' @ nl)))) = ''n'' @ nl \<and>
   world (snd (runDiskCommand_lib lib_ok expand_vm1 ''vm1'' (init disk0 (''n'' @ nl)))) ''/data/vm1.img''
     = Some ''resized image''"
  by code_simp

text \<open>
  C6, as amended. In the second \<^verbatim>\<open>runDiskCommand\<close> (lines 400-455), a call of
  \<^verbatim>\<open>disk.ResizeAndExpandDisk\<close> is the last library call of the run and comes right after
  a call of \<^verbatim>\<open>VerifyDiskBelongsToVM\<close> for the same VM and path that returned true. When
  the verification returns false the run ends with \<open>Exit 1\<close>, the message "The specified
  disk does not belong to VM" on standard error, and no call of the pipeline.
\<close>

theorem ownership_checked_before_pipeline:
  assumes "runDiskCommand_lib L F vm s = (x, s')"
  shows "(\<forall>p dev part sz r. (ResizeAndExpandDisk p dev part sz, r) \<in> set (libexecuted s s') \<longrightarrow>
            (\<exists>before. libexecuted s s' =
               before @ [(VerifyDiskBelongsToVM vm p, Flag (Inr True)), (ResizeAndExpandDisk p dev part sz, r)])) \<and>
         (\<forall>p. (VerifyDiskBelongsToVM vm p, Flag (Inr False)) \<in> set (libexecuted s s') \<longrightarrow>
            x = Exit 1 \<and>
            stderr s' = stderr s @ [''The specified disk does not belong to VM '' @ sq @ vm @ sq @ nl] \<and>
            (\<forall>p' dev part sz r. (ResizeAndExpandDisk p' dev part sz, r) \<notin> set (libexecuted s s')))"
proof -
  obtain pre path where pre: "pre = [] \<or> (\<exists>r. pre = [(GetVMDiskPaths vm, Paths r)])"
    and shape: "libexecuted s s' = pre
       \<or> (\<exists>r. libexecuted s s' = pre @ [(IsRunning vm, Flag r)])
       \<or> (\<exists>r. r \<noteq> Inr True \<and> x = Exit 1 \<and>
             libexecuted s s' = pre @ [(IsRunning vm, Flag (Inr False)), (VerifyDiskBelongsToVM vm path, Flag r)] \<and>
             (r = Inr False \<longrightarrow>
                stderr s' = stderr s @ [''The specified disk does not belong to VM '' @ sq @ vm @ sq @ nl]))
       \<or> (\<exists>r. libexecuted s s' = pre @ [(IsRunning vm, Flag (Inr False)),
               (VerifyDiskBelongsToVM vm path, Flag (Inr True)),
               (ResizeAndExpandDisk path (device_flag F) (partition_flag F) (size_flag F), Done r)])"
    using runDisk_lib_log[OF assms] by blast
  from shape consider
      (a) "libexecuted s s' = pre"
    | (b) r where "libexecuted s s' = pre @ [(IsRunning vm, Flag r)]"
    | (c) r where "r \<noteq> Inr True" "x = Exit 1"
        "libexecuted s s' = pre @ [(IsRunning vm, Flag (Inr False)), (VerifyDiskBelongsToVM vm path, Flag r)]"
        "r = Inr False \<longrightarrow>
           stderr s' = stderr s @ [''The specified disk does not belong to VM '' @ sq @ vm @ sq @ nl]"
    | (d) r where "libexecuted s s' = pre @ [(IsRunning vm, Flag (Inr False)),
               (VerifyDiskBelongsToVM vm path, Flag (Inr True)),
               (ResizeAndExpandDisk path (device_flag F) (partition_flag F) (size_flag F), Done r)]"
    by blast
  then show ?thesis
  proof cases
    case a
    then show ?thesis using pre by auto
  next
    case b
    then show ?thesis using pre by auto
  next
    case c
    then show ?thesis using pre by auto
  next
    case (d r)
    have "libexecuted s s' = (pre @ [(IsRunning vm, Flag (Inr False))]) @
        [(VerifyDiskBelongsToVM vm path, Flag (Inr True)),
         (ResizeAndExpandDisk path (device_flag F) (partition_flag F) (size_flag F), Done r)]"
      using d by simp
    then show ?thesis using pre d by auto
  qed
qed

theorem ownership_checked_before_pipeline_witness:
  "(VerifyDiskBelongsToVM ''vm1'' ''/data/other.img'', Flag (Inr False))
     \<in> set (libexecuted (init disk1 []) (snd (runDiskCommand_lib lib_ok expand_other ''vm1'' (init disk1 [])))) \<and>
   fst (runDiskCommand_lib lib_ok expand_other ''vm1'' (init disk1 [])) = Exit 1 \<and>
   stderr (snd (runDiskCommand_lib lib_ok expand_other ''vm1'' (init disk1 [])))
     = [''The specified disk does not belong to VM '' @ sq @ ''vm1'' @ sq @ nl] \<and>
   map fst (libexecuted (init disk1 []) (snd (runDiskCommand_lib lib_ok expand_other ''vm1'' (init disk1 []))))
     = [IsRunning ''vm1'', VerifyDiskBelongsToVM ''vm1'' ''/data/other.img'']"
proof -
  let ?s = "init disk1 []"
  let ?R = "runDiskCommand_lib lib_ok expand_other ''vm1'' ?s"
  have h1: "?R = (fst ?R, snd ?R)" by simp
  have h2: "(VerifyDiskBelongsToVM ''vm1'' ''/data/other.img'', Flag (Inr False))
              \<in> set (libexecuted ?s (snd ?R))"
    by code_simp
  have "fst ?R = Exit 1 \<and>
        stderr (snd ?R) = stderr ?s @ [''The specified disk does not belong to VM '' @ sq @ ''vm1'' @ sq @ nl]"
    using ownership_checked_before_pipeline[OF h1] h2 by blast
  moreover have "stderr ?s = []" by (simp add: init_def)
  moreover have "map fst (libexecuted ?s (snd ?R))
     = [IsRunning ''vm1'', VerifyDiskBelongsToVM ''vm1'' ''/data/other.img'']"
    by code_simp
  ultimately show ?thesis using h2 by simp
qed

text \<open>
  C6 as stated fails on the first \<^verbatim>\<open>runDiskCommand\<close> (lines 121-171), which verifies
  nothing: the disk inventory of \<open>vm1\<close> holds \<open>/data/vm1.img\<close> only, and yet with
  \<^verbatim>\<open>--image /data/other.img\<close> and the answer \<open>y\<close> the pipeline runs on that image,
  without any query of the inventory.
\<close>

theorem ownership_unchecked_counterexample:
  "fst (getVMDisks (fs_env all_ok) ''vm1'' (init disk1 (''y'' @ nl)))
     = Inr [\<lparr>Device = ''disk'', Source_File = ''/data/vm1.img'', Target_Dev = ''vda''\<rparr>] \<and>
   fst (runDiskCommand (fs_env all_ok) expand_other ''vm1'' (init disk1 (''y'' @ nl))) = Returned \<and>
   cmds (init disk1 (''y'' @ nl)) (snd (runDiskCommand (fs_env all_ok) expand_other ''vm1'' (init disk1 (''y'' @ nl))))
     = [[''sudo'', ''virsh'', ''list'', ''--name'', ''--state-running''],
        [''sudo'', ''qemu-img'', ''create'', ''-f'', ''qcow2'', ''-o'', ''preallocation=metadata'',
         ''/data/other.img.new'', ''40G''],
        [''sudo'', ''virt-resize'', ''--expand'', ''/dev/vda1'', ''/data/other.img'', ''/data/other.img.new''],
        [''sudo'', ''mv'', ''/data/other.img.new'', ''/data/other.img'']] \<and>
   world (snd (runDiskCommand (fs_env all_ok) expand_other ''vm1'' (init disk1 (''y'' @ nl)))) ''/data/other.img''
     = Some ''resized image''"
  by code_simp

text \<open>
  C7, as amended. In the first \<^verbatim>\<open>runDiskCommand\<close> with the dry-run flag set, the checks
  that precede the dry-run branch are performed. When they pass (the query for the running
  VMs answered without error and does not list the VM, a size is given), the function
  returns after printing the "Selected disk" line and exactly three command lines, which are
  the argument vectors of the create, migrate and replace commands of the real pipeline
  joined by spaces, in that order, with \<open>imagePath + ".new"\<close> as intermediate path. Only
  the queries are executed, nothing is written to standard error, and in the world of files
  no file changes.
\<close>

theorem dry_run_prints_pipeline:
  assumes run: "runDiskCommand E F vm s = (x, s')"
    and dry: "dryRun_flag F"
    and inlog: "(listCmd, p, w) \<in> set (executed s s')"
    and ok: "err p = None"
    and stopped: "vm \<notin> set (Split_nl (TrimSpace (out p)))"
    and sz: "size_flag F \<noteq> []"
  shows "x = Returned \<and> exit_status x = 0 \<and> set (cmds s s') \<subseteq> {dumpxmlCmd vm, listCmd} \<and>
         world s' = w \<and> (exec E = fs_exec oracle \<longrightarrow> world s' = world s) \<and> stderr s' = stderr s \<and>
         (\<exists>path. (imagePath_flag F \<noteq> [] \<longrightarrow> path = imagePath_flag F) \<and>
            stdout s' = stdout s @
              [''Selected disk: '' @ path @ '' (device: '' @ device_flag F @ '')'' @ nl,
               ''Command: '' @ Join (createCmd (path @ ''.new'') (size_flag F)) @ nl,
               ''Command: '' @ Join (resizeCmd (device_flag F) (partition_flag F) path (path @ ''.new'')) @ nl,
               ''Command: '' @ Join (mvCmd (path @ ''.new'') path) @ nl])"
  using run inlog
proof (cases rule: runDisk_checked)
  case (1 pre path s3)
  have w: "exec E = fs_exec oracle \<longrightarrow> w = world s"
    using 1(1) by (auto simp: fs_exec_def fs_effect_query)
  from 1(8) show ?thesis
  proof (cases rule: afterChecks_cases)
    case dry_run
    have "executed s s' = pre @ [(listCmd, p, w)]"
      using dry_run 1(2) by (simp add: executed_append)
    then have "set (cmds s s') \<subseteq> {dumpxmlCmd vm, listCmd}"
      using 1(1) by (auto simp: cmds_def)
    moreover have "stdout s' = stdout s @
              [''Selected disk: '' @ path @ '' (device: '' @ device_flag F @ '')'' @ nl,
               ''Command: '' @ Join (createCmd (path @ ''.new'') (size_flag F)) @ nl,
               ''Command: '' @ Join (resizeCmd (device_flag F) (partition_flag F) path (path @ ''.new'')) @ nl,
               ''Command: '' @ Join (mvCmd (path @ ''.new'') path) @ nl]"
      using dry_run 1(7) ok by simp
    moreover have "imagePath_flag F \<noteq> [] \<longrightarrow> path = imagePath_flag F" using 1(1) by auto
    ultimately show ?thesis using dry_run 1(3,5) w by (auto simp: exit_status_def)
  qed (use ok stopped sz dry in \<open>simp_all add: notListed_iff\<close>)
qed

theorem dry_run_prints_pipeline_witness:
  "dryRun_flag dry_vm1 \<and>
   fst (runDiskCommand (fs_env all_ok) dry_vm1 ''vm1'' (init disk0 [])) = Returned \<and>
   stdout (snd (runDiskCommand (fs_env all_ok) dry_vm1 ''vm1'' (init disk0 [])))
     = [''Selected disk: /data/vm1.img (device: vda)'' @ nl,
        ''Command: sudo qemu-img create -f qcow2 -o preallocation=metadata /data/vm1.img.new 40G'' @ nl,
        ''Command: sudo virt-resize --expand /dev/vda1 /data/vm1.img /data/vm1.img.new'' @ nl,
        ''Command: sudo mv /data/vm1.img.new /data/vm1.img'' @ nl] \<and>
   cmds (init disk0 []) (snd (runDiskCommand (fs_env all_ok) dry_vm1 ''vm1'' (init disk0 []))) = [listCmd] \<and>
   world (snd (runDiskCommand (fs_env all_ok) dry_vm1 ''vm1'' (init disk0 []))) = disk0"
proof -
  let ?s = "init disk0 []"
  let ?R = "runDiskCommand (fs_env all_ok) dry_vm1 ''vm1'' ?s"
  let ?ex = "executed ?s (snd ?R)"
  have h1: "?R = (fst ?R, snd ?R)" by simp
  have h2: "dryRun_flag dry_vm1" by code_simp
  have h3: "(listCmd, fst (snd (?ex ! 0)), snd (snd (?ex ! 0))) \<in> set ?ex"
    by (rule in_executed) code_simp+
  have h4: "err (fst (snd (?ex ! 0))) = None" by code_simp
  have h5: "''vm1'' \<notin> set (Split_nl (TrimSpace (out (fst (snd (?ex ! 0))))))" by code_simp
  have h6: "size_flag dry_vm1 \<noteq> []" by code_simp
  have fs: "exec (fs_env all_ok) = fs_exec all_ok" by (simp add: fs_env_def)
  have "fst ?R = Returned \<and> world (snd ?R) = world ?s"
    using dry_run_prints_pipeline[OF h1 h2 h3 h4 h5 h6, of all_ok] fs by blast
  moreover have "world ?s = disk0" by (simp add: init_def)
  moreover have "stdout (snd ?R)
     = [''Selected disk: /data/vm1.img (device: vda)'' @ nl,
        ''Command: sudo qemu-img create -f qcow2 -o preallocation=metadata /data/vm1.img.new 40G'' @ nl,
        ''Command: sudo virt-resize --expand /dev/vda1 /data/vm1.img /data/vm1.img.new'' @ nl,
        ''Command: sudo mv /data/vm1.img.new /data/vm1.img'' @ nl] \<and>
     cmds ?s (snd ?R) = [listCmd]"
    by code_simp
  ultimately show ?thesis using h2 by simp
qed

text \<open>
  C7 as stated fails: a dry run of the example executes the query for the running VMs,
  and a dry run for a running VM prints no command line and ends with \<open>Exit 1\<close>.
\<close>

theorem dry_run_queries_counterexample:
  "dryRun_flag dry_vm1 \<and>
   cmds (init disk0 []) (snd (runDiskCommand (fs_env all_ok) dry_vm1 ''vm1'' (init disk0 [])))
     = [[''sudo'', ''virsh'', ''list'', ''--name'', ''--state-running'']] \<and>
   fst (runDiskCommand (fs_env vm1_running) dry_vm1 ''vm1'' (init disk0 [])) = Exit 1 \<and>
   stdout (snd (runDiskCommand (fs_env vm1_running) dry_vm1 ''vm1'' (init disk0 [])))
     = [''Selected disk: /data/vm1.img (device: vda)'' @ nl] \<and>
   stderr (snd (runDiskCommand (fs_env vm1_running) dry_vm1 ''vm1'' (init disk0 [])))
     = [''VM '' @ sq @ ''vm1'' @ sq @ '' is currently running. Please stop the VM before making changes.'' @ nl]"
  by code_simp

text \<open>
  C8, as amended. In the first \<^verbatim>\<open>runDiskCommand\<close> with an empty size, the run ends with
  \<open>Exit 1\<close>, at least one query is executed and nothing but the two queries is; when the
  query for the running VMs answered without error and does not list the VM, the message
  "Please specify the new size using the --size option" is written to standard error.
\<close>

theorem empty_size_reported_after_queries:
  assumes run: "runDiskCommand E F vm s = (x, s')"
    and sz: "size_flag F = []"
  shows "x = Exit 1 \<and> set (cmds s s') \<subseteq> {dumpxmlCmd vm, listCmd} \<and> cmds s s' \<noteq> [] \<and>
         (\<forall>p w. (listCmd, p, w) \<in> set (executed s s') \<and> err p = None \<and>
                vm \<notin> set (Split_nl (TrimSpace (out p))) \<longrightarrow>
            stderr s' = stderr s @ [''Please specify the new size using the --size option'' @ nl])"
proof -
  have A: "x = Exit 1 \<and> set (cmds s s') \<subseteq> {dumpxmlCmd vm, listCmd} \<and> cmds s s' \<noteq> []"
    using run
  proof (cases rule: runDisk_cases)
    case (no_disk p0 w0 e)
    then have "executed s s' = [(dumpxmlCmd vm, p0, w0)]" by (simp add: executed_append)
    then show ?thesis using no_disk by (simp add: cmds_def)
  next
    case (checked pre path p w s3)
    from checked(8) have "x = Exit 1 \<and> calls s' = calls s3"
      by (cases rule: afterChecks_cases) (use sz in simp_all)
    then have "x = Exit 1 \<and> executed s s' = pre @ [(listCmd, p, w)]"
      using checked(2) by (simp add: executed_append)
    then show ?thesis using checked(1) by (auto simp: cmds_def)
  qed
  have B: "stderr s' = stderr s @ [''Please specify the new size using the --size option'' @ nl]"
    if inlog: "(listCmd, p, w) \<in> set (executed s s')" and ok: "err p = None"
      and stopped: "vm \<notin> set (Split_nl (TrimSpace (out p)))" for p w
    using run inlog
  proof (cases rule: runDisk_checked)
    case (1 pre path s3)
    from 1(8) show ?thesis
      by (cases rule: afterChecks_cases) (use ok stopped sz 1(5) in \<open>simp_all add: notListed_iff\<close>)
  qed
  show ?thesis using A B by blast
qed

theorem empty_size_reported_after_queries_witness:
  "size_flag no_size = [] \<and>
   fst (runDiskCommand (fs_env all_ok) no_size ''vm1'' (init disk0 [])) = Exit 1 \<and>
   cmds (init disk0 []) (snd (runDiskCommand (fs_env all_ok) no_size ''vm1'' (init disk0 []))) = [listCmd] \<and>
   stderr (snd (runDiskCommand (fs_env all_ok) no_size ''vm1'' (init disk0 [])))
     = [''Please specify the new size using the --size option'' @ nl]"
proof -
  let ?s = "init disk0 []"
  let ?R = "runDiskCommand (fs_env all_ok) no_size ''vm1'' ?s"
  let ?ex = "executed ?s (snd ?R)"
  have h1: "?R = (fst ?R, snd ?R)" by simp
  have h2: "size_flag no_size = []" by code_simp
  have h3: "(listCmd, fst (snd (?ex ! 0)), snd (snd (?ex ! 0))) \<in> set ?ex"
    by (rule in_executed) code_simp+
  have h4: "err (fst (snd (?ex ! 0))) = None \<and>
            ''vm1'' \<notin> set (Split_nl (TrimSpace (out (fst (snd (?ex ! 0))))))"
    by code_simp
  have "fst ?R = Exit 1 \<and>
        stderr (snd ?R) = stderr ?s @ [''Please specify the new size using the --size option'' @ nl]"
    using empty_size_reported_after_queries[OF h1 h2] h3 h4 by blast
  moreover have "stderr ?s = []" by (simp add: init_def)
  moreover have "cmds ?s (snd ?R) = [listCmd]" by code_simp
  ultimately show ?thesis using h2 by simp
qed

text \<open>
  C8 as stated fails: with an empty size the query for the running VMs is executed before
  the size is looked at, and for a running VM the error reported is the running one.
\<close>

theorem empty_size_queries_counterexample:
  "size_flag no_size = [] \<and>
   cmds (init disk0 []) (snd (runDiskCommand (fs_env all_ok) no_size ''vm1'' (init disk0 [])))
     = [[''sudo'', ''virsh'', ''list'', ''--name'', ''--state-running'']] \<and>
   fst (runDiskCommand (fs_env vm1_running) no_size ''vm1'' (init disk0 [])) = Exit 1 \<and>
   stderr (snd (runDiskCommand (fs_env vm1_running) no_size ''vm1'' (init disk0 [])))
     = [''VM '' @ sq @ ''vm1'' @ sq @ '' is currently running. Please stop the VM before making changes.'' @ nl]"
  by code_simp

end
